theory Spec2Isabelle
  imports Main
begin

section \<open>Python string primitives used by \<open>avocado/utils/partition.py\<close>\<close>

text \<open>
  Strings are lists of 8-bit characters. The text handled by the module (mount tables,
  command lines, command output) is ASCII; the primitives below follow Python on ASCII
  input. \<open>str\<close> and \<open>bytes\<close> differ in what counts as white space and as a line
  boundary, so both predicates are given.
\<close>

definition is_space_str :: "char \<Rightarrow> bool" where
  "is_space_str c = (of_char c \<in> {9, 10, 11, 12, 13, 28, 29, 30, 31, 32 :: nat})"

definition is_space_bytes :: "char \<Rightarrow> bool" where
  "is_space_bytes c = (of_char c \<in> {9, 10, 11, 12, 13, 32 :: nat})"

definition is_linebreak_str :: "char \<Rightarrow> bool" where
  "is_linebreak_str c = (of_char c \<in> {10, 11, 12, 13, 28, 29, 30 :: nat})"

definition is_linebreak_bytes :: "char \<Rightarrow> bool" where
  "is_linebreak_bytes c = (of_char c \<in> {10, 13 :: nat})"

text \<open>\<open>s.split()\<close>: the maximal runs of characters that are not white space.\<close>

function split_ws :: "(char \<Rightarrow> bool) \<Rightarrow> string \<Rightarrow> string list" where
  "split_ws isp [] = []"
| "split_ws isp (c # cs) =
     (if isp c then split_ws isp cs
      else (c # takeWhile (\<lambda>x. \<not> isp x) cs) # split_ws isp (dropWhile (\<lambda>x. \<not> isp x) cs))"
  by pat_completeness auto
termination
  by (relation "measure (\<lambda>(isp, s). length s)")
     (auto simp: length_dropWhile_le less_Suc_eq_le)

text \<open>
  \<open>s.splitlines()\<close>: lines without their terminators; a carriage return followed by a
  line feed is one terminator; no empty last line after a final terminator.
\<close>

fun splitlines_from :: "(char \<Rightarrow> bool) \<Rightarrow> string \<Rightarrow> string \<Rightarrow> string list" where
  "splitlines_from brk acc [] = (if acc = [] then [] else [rev acc])"
| "splitlines_from brk acc [c] =
     (if brk c then [rev acc] else [rev (c # acc)])"
| "splitlines_from brk acc (c # d # cs) =
     (if c = CHR 0x0D \<and> d = CHR 0x0A then rev acc # splitlines_from brk [] cs
      else if brk c then rev acc # splitlines_from brk [] (d # cs)
      else splitlines_from brk (c # acc) (d # cs))"

definition splitlines :: "(char \<Rightarrow> bool) \<Rightarrow> string \<Rightarrow> string list" where
  "splitlines brk s = splitlines_from brk [] s"

definition lstrip :: "string \<Rightarrow> string" where
  "lstrip s = dropWhile is_space_str s"

definition rstrip :: "string \<Rightarrow> string" where
  "rstrip s = rev (dropWhile is_space_str (rev s))"

definition strip :: "string \<Rightarrow> string" where
  "strip s = rstrip (lstrip s)"

definition startswith :: "string \<Rightarrow> string \<Rightarrow> bool" where
  "startswith s p = (take (length p) s = p)"

text \<open>\<open>sub in s\<close> on strings: \<open>sub\<close> occurs as a contiguous substring of \<open>s\<close>.\<close>

fun contains :: "string \<Rightarrow> string \<Rightarrow> bool" where
  "contains sub [] = (sub = [])"
| "contains sub (c # cs) = (startswith (c # cs) sub \<or> contains sub cs)"

text \<open>
  \<open>int(tok)\<close> on a token without white space: an optional sign, then decimal digits
  with single underscores allowed between digits. \<open>None\<close> stands for \<open>ValueError\<close>.
\<close>

definition is_digit :: "char \<Rightarrow> bool" where
  "is_digit c = (48 \<le> (of_char c :: nat) \<and> (of_char c :: nat) \<le> 57)"

fun parse_digits :: "nat \<Rightarrow> bool \<Rightarrow> string \<Rightarrow> nat option" where
  "parse_digits acc after_digit [] = (if after_digit then Some acc else None)"
| "parse_digits acc after_digit (c # cs) =
     (if c = CHR ''_'' then (if after_digit then parse_digits acc False cs else None)
      else if is_digit c then parse_digits (acc * 10 + (of_char c - 48)) True cs
      else None)"

definition py_int :: "string \<Rightarrow> int option" where
  "py_int s =
     (case s of
        [] \<Rightarrow> None
      | c # cs \<Rightarrow>
          if c = CHR ''-'' then map_option (\<lambda>n. - int n) (parse_digits 0 False cs)
          else if c = CHR ''+'' then map_option int (parse_digits 0 False cs)
          else map_option int (parse_digits 0 False (c # cs)))"

text \<open>\<open>str(n)\<close> for an integer: its decimal numeral.\<close>

definition digit_char :: "nat \<Rightarrow> char" where
  "digit_char d = ''0123456789'' ! d"

function show_nat :: "nat \<Rightarrow> string" where
  "show_nat n =
     (if n < 10 then [digit_char n]
      else show_nat (n div 10) @ [digit_char (n mod 10)])"
  by pat_completeness auto
termination
  by (relation "measure id") auto

declare show_nat.simps [simp del]

definition show_int :: "int \<Rightarrow> string" where
  "show_int i = (if i < 0 then CHR ''-'' # show_nat (nat (- i)) else show_nat (nat i))"


section \<open>The outside world\<close>

text \<open>
  The module talks to the operating system: it runs command lines, takes a file lock,
  reads mount tables and creates directories. Each such interaction is an event, appended
  to the history of the world; what the system answers is given by an environment, as a
  function of the history so far (so an answer may depend on every command run before).
\<close>

datatype event =
    Exec string bool \<comment> \<open>command line, run with elevated privileges\<close>
  | LockEnter
  | LockExit
  | Open string
  | MakeDirs string

record cmd_result =
  exit_status :: int
  stdout :: string

datatype run_outcome = Finished cmd_result | NotRun

datatype lock_outcome = Acquired | RaiseLockFailed | RaiseAlreadyLocked

record env =
  respond :: "event list \<Rightarrow> string \<Rightarrow> bool \<Rightarrow> run_outcome"
  lock_try :: "event list \<Rightarrow> lock_outcome"
  file_lines :: "event list \<Rightarrow> string \<Rightarrow> string list option"
  realpath :: "string \<Rightarrow> string"
  isdir :: "event list \<Rightarrow> string \<Rightarrow> bool"
  makedirs_ok :: "event list \<Rightarrow> string \<Rightarrow> bool"

record world =
  history :: "event list"
  lock_held :: bool
  mtab_open :: bool

text \<open>
  Python exceptions. \<open>PartitionError reason details\<close> carries the reason string and the
  optional underlying exception; the partition it also refers to is the one returned
  next to it by every operation below.
\<close>

datatype exn =
    CmdError string int
  | OSError
  | LockFailed
  | AlreadyLocked
  | IndexError
  | ValueError
  | PartitionError string "exn option"

definition truthy :: "string option \<Rightarrow> bool" where
  "truthy v = (case v of None \<Rightarrow> False | Some s \<Rightarrow> s \<noteq> [])"

subsection \<open>The command runner\<close>

text \<open>
  Modelled from the spec: \<open>avocado.utils.process\<close> (the Command Runner), a module
  outside \<open>partition.py\<close>. A run returns the exit status and the captured output, and
  fails with a command error on a non-zero exit unless the caller tolerates it; a command
  that cannot be started at all is an \<open>OSError\<close>.
\<close>

definition run_cmd :: "env \<Rightarrow> world \<Rightarrow> string \<Rightarrow> bool \<Rightarrow> run_outcome \<times> world" where
  "run_cmd E w cmd sudo =
     (respond E (history w) cmd sudo, w\<lparr>history := history w @ [Exec cmd sudo]\<rparr>)"

definition process_run ::
  "env \<Rightarrow> world \<Rightarrow> string \<Rightarrow> bool \<Rightarrow> bool \<Rightarrow> (exn + cmd_result) \<times> world" where
  "process_run E w cmd sudo ignore_status =
     (case run_cmd E w cmd sudo of
        (NotRun, w') \<Rightarrow> (Inl OSError, w')
      | (Finished r, w') \<Rightarrow>
          if exit_status r \<noteq> 0 \<and> \<not> ignore_status
          then (Inl (CmdError cmd (exit_status r)), w')
          else (Inr r, w'))"

definition drop_trailing_newline :: "string \<Rightarrow> string" where
  "drop_trailing_newline s =
     (if s \<noteq> [] \<and> last s = CHR 0x0A then butlast s else s)"

definition rstrip_newlines :: "string \<Rightarrow> string" where
  "rstrip_newlines s = rev (dropWhile (\<lambda>c. c = CHR 0x0A \<or> c = CHR 0x0D) (rev s))"

text \<open>
  Modelled from the spec: \<open>process.getoutput\<close> tolerates a non-zero exit and returns the
  output text without its final newline; \<open>process.system_output\<close> returns the output
  bytes without trailing line ends.
\<close>

definition process_getoutput :: "env \<Rightarrow> world \<Rightarrow> string \<Rightarrow> (exn + string) \<times> world" where
  "process_getoutput E w cmd =
     (case process_run E w cmd False True of
        (Inl e, w') \<Rightarrow> (Inl e, w')
      | (Inr r, w') \<Rightarrow> (Inr (drop_trailing_newline (stdout r)), w'))"

definition process_system_output ::
  "env \<Rightarrow> world \<Rightarrow> string \<Rightarrow> bool \<Rightarrow> (exn + string) \<times> world" where
  "process_system_output E w cmd sudo =
     (case process_run E w cmd sudo False of
        (Inl e, w') \<Rightarrow> (Inl e, w')
      | (Inr r, w') \<Rightarrow> (Inr (rstrip_newlines (stdout r)), w'))"

text \<open>
  An \<open>except process.CmdError as details: raise PartitionError(self, reason, details)\<close>
  clause: a command error is wrapped, any other exception passes through.
\<close>

definition reraise_cmd_error :: "string \<Rightarrow> exn \<Rightarrow> exn" where
  "reraise_cmd_error reason e =
     (case e of CmdError c s \<Rightarrow> PartitionError reason (Some e) | _ \<Rightarrow> e)"

subsection \<open>\<open>MtabLock\<close>\<close>

definition mtab_device :: string where
  "mtab_device = ''/etc/mtab''"

definition lock_reason :: string where
  "lock_reason =
     ''Unable to obtain '' @ [CHR 0x27] @ mtab_device @ [CHR 0x27] @ '' lock in 60s''"

text \<open>
  Modelled from the spec: \<open>avocado.utils.filelock.FileLock\<close>, a module outside
  \<open>partition.py\<close>. Entering it either acquires the named lock within the timeout or
  fails with \<open>LockFailed\<close> or \<open>AlreadyLocked\<close>; leaving it releases the lock.
\<close>

definition FileLock_enter :: "env \<Rightarrow> world \<Rightarrow> (exn + unit) \<times> world" where
  "FileLock_enter E w =
     (let w' = w\<lparr>history := history w @ [LockEnter]\<rparr> in
      case lock_try E (history w) of
        Acquired \<Rightarrow> (Inr (), w'\<lparr>lock_held := True\<rparr>)
      | RaiseLockFailed \<Rightarrow> (Inl LockFailed, w')
      | RaiseAlreadyLocked \<Rightarrow> (Inl AlreadyLocked, w'))"

definition FileLock_exit :: "world \<Rightarrow> world" where
  "FileLock_exit w = w\<lparr>history := history w @ [LockExit], lock_held := False\<rparr>"

text \<open>
  \<open>MtabLock.__enter__\<close>: take the file lock, wrapping a lock failure in a
  \<open>PartitionError\<close>, then open the mount table file.
\<close>

definition MtabLock_enter :: "env \<Rightarrow> world \<Rightarrow> (exn + unit) \<times> world" where
  "MtabLock_enter E w =
     (case FileLock_enter E w of
        (Inl e, w1) \<Rightarrow> (Inl (PartitionError lock_reason (Some e)), w1)
      | (Inr u, w1) \<Rightarrow>
          (let w2 = w1\<lparr>history := history w1 @ [Open mtab_device]\<rparr> in
           case file_lines E (history w1) mtab_device of
             None \<Rightarrow> (Inl OSError, w2)
           | Some ls \<Rightarrow> (Inr (), w2\<lparr>mtab_open := True\<rparr>)))"

text \<open>
  \<open>__enter__\<close> raises with the file lock already taken exactly when the lock is
  acquired and the mount table file cannot be opened.
\<close>

definition entry_leak :: "env \<Rightarrow> world \<Rightarrow> bool" where
  "entry_leak E w =
     (lock_try E (history w) = Acquired \<and>
      file_lines E (history w @ [LockEnter]) mtab_device = None)"

text \<open>\<open>MtabLock.__exit__\<close>: close the mount table file if open, release the file lock.\<close>

definition MtabLock_exit :: "world \<Rightarrow> world" where
  "MtabLock_exit w =
     FileLock_exit (if mtab_open w then w\<lparr>mtab_open := False\<rparr> else w)"

text \<open>
  \<open>with MtabLock(): body\<close>. When \<open>__enter__\<close> raises, neither the body nor
  \<open>__exit__\<close> runs; otherwise \<open>__exit__\<close> runs however the body ends, and it does not
  suppress an exception of the body.
\<close>

definition with_MtabLock ::
  "env \<Rightarrow> world \<Rightarrow> 's \<Rightarrow> (world \<Rightarrow> (exn + 'a) \<times> 's \<times> world) \<Rightarrow> (exn + 'a) \<times> 's \<times> world" where
  "with_MtabLock E w s body =
     (case MtabLock_enter E w of
        (Inl e, w1) \<Rightarrow> (Inl e, s, w1)
      | (Inr u, w1) \<Rightarrow>
          (case body w1 of (r, s', w2) \<Rightarrow> (r, s', MtabLock_exit w2)))"


section \<open>\<open>Partition\<close>\<close>

record Partition =
  device :: string
  loop :: int
  fstype :: "string option"
  mountpoint :: "string option"
  mkfs_flags :: string
  mount_options :: "string option"

text \<open>
  \<open>Partition.__init__\<close>: a loop-backed partition gets its backing file filled with
  zeros at once.
\<close>

definition Partition_init ::
  "env \<Rightarrow> world \<Rightarrow> string \<Rightarrow> int \<Rightarrow> string option \<Rightarrow> string \<Rightarrow> string option
     \<Rightarrow> (exn + Partition) \<times> world" where
  "Partition_init E w dev loop_size mnt flags opts =
     (let p = \<lparr>device = dev, loop = loop_size, fstype = None, mountpoint = mnt,
                mkfs_flags = flags, mount_options = opts\<rparr>
      in if loop_size \<noteq> 0 then
           (case process_run E w
                   (''dd if=/dev/zero of='' @ dev @ '' bs=1M count='' @ show_int loop_size)
                   False False of
              (Inl e, w') \<Rightarrow> (Inl e, w')
            | (Inr r, w') \<Rightarrow> (Inr p, w'))
         else (Inr p, w))"

subsection \<open>Mount table queries\<close>

text \<open>\<open>line.split()[n]\<close>, with the \<open>IndexError\<close> of a line that has too few fields.\<close>

definition nth_field :: "nat \<Rightarrow> string \<Rightarrow> exn + string" where
  "nth_field n line =
     (let parts = split_ws is_space_str line in
      if n < length parts then Inr (parts ! n) else Inl IndexError)"

text \<open>\<open>[line.split()[n] for line in lines]\<close>.\<close>

fun column :: "nat \<Rightarrow> string list \<Rightarrow> exn + string list" where
  "column n [] = Inr []"
| "column n (l # ls) =
     (case nth_field n l of
        Inl e \<Rightarrow> Inl e
      | Inr f \<Rightarrow> (case column n ls of Inl e \<Rightarrow> Inl e | Inr fs \<Rightarrow> Inr (f # fs)))"

definition list_mount_devices :: "env \<Rightarrow> world \<Rightarrow> (exn + string list) \<times> world" where
  "list_mount_devices E w =
     (case process_getoutput E w ''mount'' of
        (Inl e, w1) \<Rightarrow> (Inl e, w1)
      | (Inr out, w1) \<Rightarrow>
          (case column 0 (splitlines is_linebreak_str out) of
             Inl e \<Rightarrow> (Inl e, w1)
           | Inr devices \<Rightarrow>
               (case process_getoutput E w1 ''swapon -s'' of
                  (Inl e, w2) \<Rightarrow> (Inl e, w2)
                | (Inr out2, w2) \<Rightarrow>
                    (case column 0 (filter (\<lambda>line. startswith line ''/'')
                                      (splitlines is_linebreak_str out2)) of
                       Inl e \<Rightarrow> (Inl e, w2)
                     | Inr swaps \<Rightarrow> (Inr (devices @ swaps), w2)))))"

definition list_mount_points :: "env \<Rightarrow> world \<Rightarrow> (exn + string list) \<times> world" where
  "list_mount_points E w =
     (case process_getoutput E w ''mount'' of
        (Inl e, w1) \<Rightarrow> (Inl e, w1)
      | (Inr out, w1) \<Rightarrow> (column 2 (splitlines is_linebreak_str out), w1))"

text \<open>
  The loop of \<open>get_mountpoint\<close> over the lines of the file: \<open>parts[0]\<close> and \<open>parts[1]\<close>
  raise \<open>IndexError\<close> on a line that is too short.
\<close>

fun scan_lines :: "env \<Rightarrow> Partition \<Rightarrow> string list \<Rightarrow> exn + string option" where
  "scan_lines E p [] = Inr None"
| "scan_lines E p (line # rest) =
     (case split_ws is_space_str line of
        [] \<Rightarrow> Inl IndexError
      | p0 # ps \<Rightarrow>
          if p0 = device p \<or> realpath E p0 = realpath E (device p) then
            (case ps of
               [] \<Rightarrow> Inl IndexError
             | p1 # _ \<Rightarrow>
                 if Some p1 = mountpoint p then Inr (Some p1) else scan_lines E p rest)
          else scan_lines E p rest)"

text \<open>\<open>get_mountpoint(filename)\<close> with a file name given.\<close>

definition get_mountpoint_file ::
  "env \<Rightarrow> Partition \<Rightarrow> world \<Rightarrow> string \<Rightarrow> (exn + string option) \<times> world" where
  "get_mountpoint_file E p w filename =
     (let w' = w\<lparr>history := history w @ [Open filename]\<rparr> in
      case file_lines E (history w) filename of
        None \<Rightarrow> (Inl OSError, w')
      | Some ls \<Rightarrow> (scan_lines E p ls, w'))"

text \<open>
  \<open>get_mountpoint()\<close> without a file name: \<open>/proc/mounts\<close>, then \<open>/etc/mtab\<close>, where
  only the root directory counts.
\<close>

definition get_mountpoint_default ::
  "env \<Rightarrow> Partition \<Rightarrow> world \<Rightarrow> (exn + string option) \<times> world" where
  "get_mountpoint_default E p w =
     (case get_mountpoint_file E p w ''/proc/mounts'' of
        (Inl e, w1) \<Rightarrow> (Inl e, w1)
      | (Inr res, w1) \<Rightarrow>
          if \<not> truthy res then
            (case get_mountpoint_file E p w1 ''/etc/mtab'' of
               (Inl e, w2) \<Rightarrow> (Inl e, w2)
             | (Inr res2, w2) \<Rightarrow> (Inr (if res2 \<noteq> Some ''/'' then None else res2), w2))
          else (Inr res, w1))"

definition get_mountpoint ::
  "env \<Rightarrow> Partition \<Rightarrow> world \<Rightarrow> string option \<Rightarrow> (exn + string option) \<times> world" where
  "get_mountpoint E p w filename =
     (case filename of
        None \<Rightarrow> get_mountpoint_default E p w
      | Some f \<Rightarrow>
          if f \<noteq> [] then get_mountpoint_file E p w f else get_mountpoint_default E p w)"

subsection \<open>\<open>mkfs\<close>\<close>

text \<open>The file system type \<open>mkfs\<close> uses: the argument, else the stored type, else ext2.\<close>

definition mkfs_fstype :: "Partition \<Rightarrow> string option \<Rightarrow> string" where
  "mkfs_fstype p fstype_arg =
     (let stored = (case fstype p of
                      None \<Rightarrow> ''ext2''
                    | Some g \<Rightarrow> if g \<noteq> [] then g else ''ext2'')
      in case fstype_arg of
           None \<Rightarrow> stored
         | Some f \<Rightarrow> if f \<noteq> [] then f else stored)"

text \<open>The argument string of the \<open>mkfs\<close> command, and the command line.\<close>

definition mkfs_args :: "Partition \<Rightarrow> string \<Rightarrow> string \<Rightarrow> string" where
  "mkfs_args p ft args =
     (let a1 = (if mkfs_flags p \<noteq> [] then args @ '' '' @ mkfs_flags p else args);
          a2 = (if ft \<in> set [''xfs'', ''btrfs''] then a1 @ '' -f'' else a1);
          a3 = (if loop p \<noteq> 0 then
                  (if startswith ft ''ext'' then a2 @ '' -F''
                   else if ft = ''reiserfs'' then a2 @ '' -f'' else a2)
                else a2);
          a4 = (if \<not> contains ''-t'' a3 then ''-t '' @ ft @ '' '' @ a3 else a3)
      in strip a4)"

definition mkfs_cmd :: "Partition \<Rightarrow> string \<Rightarrow> string \<Rightarrow> string" where
  "mkfs_cmd p ft args = ''mkfs '' @ mkfs_args p ft args @ '' '' @ device p"

definition mkfs ::
  "env \<Rightarrow> Partition \<Rightarrow> world \<Rightarrow> string option \<Rightarrow> string \<Rightarrow> (exn + unit) \<times> Partition \<times> world" where
  "mkfs E p w fstype_arg args =
     (case list_mount_devices E w of
        (Inl e, w1) \<Rightarrow> (Inl e, p, w1)
      | (Inr devs, w1) \<Rightarrow>
          if device p \<in> set devs
          then (Inl (PartitionError ''Unable to format mounted device'' None), p, w1)
          else
            (let ft = mkfs_fstype p fstype_arg in
             case process_system_output E w1 (''yes | '' @ mkfs_cmd p ft args) False of
               (Inl e, w2) \<Rightarrow> (Inl (reraise_cmd_error ''Failed to mkfs'' e), p, w2)
             | (Inr out, w2) \<Rightarrow> (Inr (), p\<lparr>fstype := Some ft\<rparr>, w2)))"


subsection \<open>\<open>mount\<close>\<close>

definition no_mountpoint_reason :: string where
  "no_mountpoint_reason =
     ''No mountpoint specified and no default provided to this partition object''"

text \<open>The option string of the mount command.\<close>

definition mount_args :: "Partition \<Rightarrow> string option \<Rightarrow> string \<Rightarrow> string" where
  "mount_args p ft args =
     (let a1 = (case mount_options p of
                  None \<Rightarrow> args
                | Some opts \<Rightarrow> if opts \<noteq> [] then args @ '' -o '' @ opts else args);
          a2 = (case ft of
                  None \<Rightarrow> a1
                | Some t \<Rightarrow> if t \<noteq> [] then a1 @ '' -t '' @ t else a1)
      in lstrip a2)"

text \<open>The checks under \<open>if mnt_check:\<close>.\<close>

definition mount_check ::
  "env \<Rightarrow> Partition \<Rightarrow> world \<Rightarrow> string \<Rightarrow> (exn + unit) \<times> world" where
  "mount_check E p w mnt =
     (case list_mount_devices E w of
        (Inl e, w1) \<Rightarrow> (Inl e, w1)
      | (Inr devs, w1) \<Rightarrow>
          if device p \<in> set devs
          then (Inl (PartitionError ''Attempted to mount mounted device'' None), w1)
          else
            (case list_mount_points E w1 of
               (Inl e, w2) \<Rightarrow> (Inl e, w2)
             | (Inr points, w2) \<Rightarrow>
                 if mnt \<in> set points
                 then (Inl (PartitionError ''Attempted to mount busy directory'' None), w2)
                 else (Inr (), w2)))"

text \<open>\<open>if not os.path.isdir(mountpoint): os.makedirs(mountpoint)\<close>.\<close>

definition ensure_dir :: "env \<Rightarrow> world \<Rightarrow> string \<Rightarrow> (exn + unit) \<times> world" where
  "ensure_dir E w mnt =
     (if \<not> isdir E (history w) mnt then
        (let w' = w\<lparr>history := history w @ [MakeDirs mnt]\<rparr> in
         if makedirs_ok E (history w) mnt then (Inr (), w') else (Inl OSError, w'))
      else (Inr (), w))"

text \<open>
  The \<open>try\<close> block of \<open>mount\<close>: loop device setup, which replaces \<open>device\<close>, then the
  mount command. A command error of either becomes \<open>Mount failed\<close>.
\<close>

definition mount_try ::
  "env \<Rightarrow> Partition \<Rightarrow> world \<Rightarrow> string \<Rightarrow> string \<Rightarrow> (exn + unit) \<times> Partition \<times> world" where
  "mount_try E p w mnt margs =
     (case (if loop p \<noteq> 0 then
              (case process_run E w (''losetup --find --show -f '' @ device p) True False of
                 (Inl e, w1) \<Rightarrow> (Inl e, p, w1)
               | (Inr r, w1) \<Rightarrow> (Inr (), p\<lparr>device := strip (stdout r)\<rparr>, w1))
            else (Inr (), p, w)) of
        (Inl e, p1, w1) \<Rightarrow> (Inl (reraise_cmd_error ''Mount failed'' e), p1, w1)
      | (Inr u, p1, w1) \<Rightarrow>
          (case process_run E w1
                  (''mount '' @ margs @ '' '' @ device p1 @ '' '' @ mnt) True False of
             (Inl e, w2) \<Rightarrow> (Inl (reraise_cmd_error ''Mount failed'' e), p1, w2)
           | (Inr r, w2) \<Rightarrow> (Inr (), p1, w2)))"

text \<open>The body of \<open>with MtabLock():\<close> in \<open>mount\<close>.\<close>

definition mount_locked ::
  "env \<Rightarrow> Partition \<Rightarrow> string \<Rightarrow> string \<Rightarrow> bool \<Rightarrow> world \<Rightarrow> (exn + unit) \<times> Partition \<times> world" where
  "mount_locked E p mnt margs mnt_check w =
     (case (if mnt_check then mount_check E p w mnt else (Inr (), w)) of
        (Inl e, w1) \<Rightarrow> (Inl e, p, w1)
      | (Inr u, w1) \<Rightarrow>
          (case ensure_dir E w1 mnt of
             (Inl e, w2) \<Rightarrow> (Inl e, p, w2)
           | (Inr u, w2) \<Rightarrow> mount_try E p w2 mnt margs))"

text \<open>The mount point \<open>mount\<close> uses: the argument, else the stored one.\<close>

definition resolve_mountpoint :: "Partition \<Rightarrow> string option \<Rightarrow> string option" where
  "resolve_mountpoint p mnt_arg =
     (let mnt_opt = (if \<not> truthy mnt_arg then mountpoint p else mnt_arg)
      in if truthy mnt_opt then mnt_opt else None)"

text \<open>The file system type \<open>mount\<close> uses: the argument unless it is \<open>None\<close>.\<close>

definition mount_fstype :: "Partition \<Rightarrow> string option \<Rightarrow> string option" where
  "mount_fstype p fstype_arg = (case fstype_arg of None \<Rightarrow> fstype p | Some f \<Rightarrow> Some f)"

definition mount ::
  "env \<Rightarrow> Partition \<Rightarrow> world \<Rightarrow> string option \<Rightarrow> string option \<Rightarrow> string \<Rightarrow> bool
     \<Rightarrow> (exn + unit) \<times> Partition \<times> world" where
  "mount E p w mnt_arg fstype_arg args mnt_check =
     (case resolve_mountpoint p mnt_arg of
        None \<Rightarrow> (Inl (PartitionError no_mountpoint_reason None), p, w)
      | Some mnt \<Rightarrow>
          (let ft = mount_fstype p fstype_arg;
               p1 = (case fstype_arg of None \<Rightarrow> p | Some f \<Rightarrow> p\<lparr>fstype := Some f\<rparr>);
               margs = mount_args p1 ft args
           in case with_MtabLock E w p1 (mount_locked E p1 mnt margs mnt_check) of
                (Inl e, p2, w2) \<Rightarrow> (Inl e, p2, w2)
              | (Inr u, p2, w2) \<Rightarrow> (Inr (), p2\<lparr>fstype := ft\<rparr>, w2)))"

subsection \<open>Forced unmount\<close>

definition dquote :: "string \<Rightarrow> string" where
  "dquote s = [CHR 0x22] @ s @ [CHR 0x22]"

text \<open>\<open>[int(line.split()[1]) for line in out.splitlines()[1:]]\<close> on the bytes of the output.\<close>

fun parse_pids :: "string list \<Rightarrow> exn + int list" where
  "parse_pids [] = Inr []"
| "parse_pids (line # rest) =
     (let parts = split_ws is_space_bytes line in
      if 1 < length parts then
        (case py_int (parts ! 1) of
           None \<Rightarrow> Inl ValueError
         | Some pid \<Rightarrow>
             (case parse_pids rest of Inl e \<Rightarrow> Inl e | Inr pids \<Rightarrow> Inr (pid # pids)))
      else Inl IndexError)"

definition get_pids_on_mountpoint ::
  "env \<Rightarrow> world \<Rightarrow> string \<Rightarrow> (exn + int list) \<times> world" where
  "get_pids_on_mountpoint E w mnt =
     (let cmd = ''lsof '' @ mnt in
      case process_system_output E w cmd True of
        (Inl e, w1) \<Rightarrow>
          (case e of
             OSError \<Rightarrow>
               (Inl (PartitionError
                       (''Could not run lsof to identify processes using '' @ dquote mnt)
                       (Some e)), w1)
           | CmdError c st \<Rightarrow>
               (Inl (PartitionError (''Failure executing '' @ dquote cmd) (Some e)), w1)
           | _ \<Rightarrow> (Inl e, w1))
      | (Inr out, w1) \<Rightarrow> (parse_pids (drop 1 (splitlines is_linebreak_bytes out)), w1))"

text \<open>The \<open>for pid in ...\<close> loop of \<open>_unmount_force\<close>: \<open>kill -9\<close>, exit status ignored.\<close>

fun kill_all :: "env \<Rightarrow> world \<Rightarrow> int list \<Rightarrow> (exn + unit) \<times> world" where
  "kill_all E w [] = (Inr (), w)"
| "kill_all E w (pid # pids) =
     (case process_run E w (''kill -9 '' @ show_int pid) True True of
        (Inl e, w1) \<Rightarrow> (Inl (reraise_cmd_error ''Failed to kill processes'' e), w1)
      | (Inr r, w1) \<Rightarrow> kill_all E w1 pids)"

definition unmount_force :: "env \<Rightarrow> world \<Rightarrow> string \<Rightarrow> (exn + unit) \<times> world" where
  "unmount_force E w mnt =
     (case get_pids_on_mountpoint E w mnt of
        (Inl e, w1) \<Rightarrow> (Inl e, w1)
      | (Inr pids, w1) \<Rightarrow>
          (case kill_all E w1 pids of
             (Inl e, w2) \<Rightarrow> (Inl e, w2)
           | (Inr u, w2) \<Rightarrow>
               (case process_run E w2 (''umount -f '' @ mnt) True False of
                  (Inr r, w3) \<Rightarrow> (Inr (), w3)
                | (Inl e, w3) \<Rightarrow>
                    (case e of
                       CmdError c st \<Rightarrow>
                         (case process_run E w3 (''umount -l '' @ mnt) True False of
                            (Inr r, w4) \<Rightarrow> (Inr (), w4)
                          | (Inl e', w4) \<Rightarrow>
                              (Inl (reraise_cmd_error ''Force unmount failed'' e'), w4))
                     | _ \<Rightarrow> (Inl e, w3)))))"

subsection \<open>\<open>unmount\<close>\<close>

text \<open>
  How the body of \<open>with MtabLock():\<close> in \<open>unmount\<close> ends without an exception: by the
  \<open>return\<close> inside it, or by reaching its end with \<open>result\<close> set.
\<close>

datatype section_end = Returned int | Fell_through int

definition unmount_locked ::
  "env \<Rightarrow> Partition \<Rightarrow> bool \<Rightarrow> world \<Rightarrow> (exn + section_end) \<times> Partition \<times> world" where
  "unmount_locked E p force w =
     (case get_mountpoint E p w None of
        (Inl e, w1) \<Rightarrow> (Inl e, p, w1)
      | (Inr mnt_opt, w1) \<Rightarrow>
          (case (if truthy mnt_opt then mnt_opt else None) of
             None \<Rightarrow> (Inr (Returned 1), p, w1)
           | Some mnt \<Rightarrow>
               (case process_run E w1 (''umount '' @ mnt) True False of
                  (Inr r, w2) \<Rightarrow> (Inr (Fell_through 1), p, w2)
                | (Inl e, w2) \<Rightarrow>
                    (case e of
                       CmdError c st \<Rightarrow>
                         if force then
                           (case unmount_force E w2 mnt of
                              (Inl e', w3) \<Rightarrow> (Inl e', p, w3)
                            | (Inr u, w3) \<Rightarrow> (Inr (Fell_through 2), p, w3))
                         else
                           (Inl (PartitionError ''Unable to unmount gracefully'' (Some e)),
                            p, w2)
                     | _ \<Rightarrow> (Inl e, p, w2)))))"

definition unmount ::
  "env \<Rightarrow> Partition \<Rightarrow> world \<Rightarrow> bool \<Rightarrow> (exn + int) \<times> Partition \<times> world" where
  "unmount E p w force =
     (case with_MtabLock E w p (unmount_locked E p force) of
        (Inl e, p1, w1) \<Rightarrow> (Inl e, p1, w1)
      | (Inr (Returned result), p1, w1) \<Rightarrow> (Inr result, p1, w1)
      | (Inr (Fell_through result), p1, w1) \<Rightarrow>
          if loop p1 \<noteq> 0 then
            (case process_run E w1 (''losetup -d '' @ device p1) True False of
               (Inl e, w2) \<Rightarrow>
                 (Inl (reraise_cmd_error ''Unable to cleanup loop device'' e), p1, w2)
             | (Inr r, w2) \<Rightarrow> (Inr result, p1, w2))
          else (Inr result, p1, w1))"

section \<open>Vocabulary for the properties\<close>

text \<open>A line of a mount table names the partition's device, literally or by its real path.\<close>

definition names_device :: "env \<Rightarrow> Partition \<Rightarrow> string \<Rightarrow> bool" where
  "names_device E p line =
     (case split_ws is_space_str line of
        [] \<Rightarrow> False
      | p0 # ps \<Rightarrow> p0 = device p \<or> realpath E p0 = realpath E (device p))"

text \<open>The device is absent from a mount table: every line is an entry of another device.\<close>

definition device_absent :: "env \<Rightarrow> Partition \<Rightarrow> string list \<Rightarrow> bool" where
  "device_absent E p ls =
     list_all (\<lambda>line. split_ws is_space_str line \<noteq> [] \<and> \<not> names_device E p line) ls"

text \<open>A command was started and exited with status 0.\<close>

definition succeeded :: "run_outcome \<Rightarrow> bool" where
  "succeeded out = (case out of Finished r \<Rightarrow> exit_status r = 0 | NotRun \<Rightarrow> False)"

text \<open>The \<open>kill\<close> commands for a list of process ids, in order.\<close>

definition kill_events :: "int list \<Rightarrow> event list" where
  "kill_events pids = map (\<lambda>pid. Exec (''kill -9 '' @ show_int pid) True) pids"

text \<open>An event that detaches a loop device.\<close>

fun is_detach :: "event \<Rightarrow> bool" where
  "is_detach (Exec c s) = startswith c ''losetup -d ''"
| "is_detach e = False"

text \<open>The exit status of a command that ran (0 stands in for one that did not start).\<close>

definition status_of :: "run_outcome \<Rightarrow> int" where
  "status_of out = (case out of Finished r \<Rightarrow> exit_status r | NotRun \<Rightarrow> 0)"

text \<open>Between two worlds no loop device was detached.\<close>

definition no_new_detach :: "world \<Rightarrow> world \<Rightarrow> bool" where
  "no_new_detach w w' = (\<forall>e \<in> set (history w'). is_detach e \<longrightarrow> e \<in> set (history w))"

text \<open>
  The arguments \<open>mkfs\<close> has put together when it looks for a type option: the caller's
  arguments, \<open>mkfs_flags\<close>, and the force options.
\<close>

definition mkfs_assembled :: "Partition \<Rightarrow> string \<Rightarrow> string \<Rightarrow> string" where
  "mkfs_assembled p ft args =
     args @
     (if mkfs_flags p \<noteq> [] then '' '' @ mkfs_flags p else []) @
     (if ft = ''xfs'' \<or> ft = ''btrfs'' then '' -f'' else []) @
     (if loop p \<noteq> 0 then
        (if startswith ft ''ext'' then '' -F'' else if ft = ''reiserfs'' then '' -f'' else [])
      else [])"

section \<open>Scenarios\<close>

text \<open>
  Concrete systems on which the operations are run: \<open>system cmds files\<close> answers each
  command line by \<open>cmds\<close> and each file read by \<open>files\<close>, whatever happened before;
  the lock is free, paths are their own real paths and directories exist.
\<close>

definition finished :: "int \<Rightarrow> string \<Rightarrow> run_outcome" where
  "finished st out = Finished \<lparr>exit_status = st, stdout = out\<rparr>"

definition system :: "(string \<Rightarrow> run_outcome) \<Rightarrow> (string \<Rightarrow> string list option) \<Rightarrow> env" where
  "system cmds files =
     \<lparr>respond = (\<lambda>h c s. cmds c), lock_try = (\<lambda>h. Acquired),
      file_lines = (\<lambda>h f. files f), realpath = (\<lambda>x. x),
      isdir = (\<lambda>h d. True), makedirs_ok = (\<lambda>h d. True)\<rparr>"

definition world0 :: world where
  "world0 = \<lparr>history = [], lock_held = False, mtab_open = False\<rparr>"

text \<open>\<open>Partition("/dev/sdb1", mountpoint="/mnt")\<close>, as its constructor leaves it.\<close>

definition part_sdb1 :: Partition where
  "part_sdb1 =
     \<lparr>device = ''/dev/sdb1'', loop = 0, fstype = None, mountpoint = Some ''/mnt'',
      mkfs_flags = [], mount_options = None\<rparr>"

text \<open>A system where nothing is mounted and every command exits with status 1.\<close>

definition sys_failing :: env where
  "sys_failing = system (\<lambda>c. finished 1 []) (\<lambda>f. Some [])"

text \<open>A system without \<open>/etc/mtab\<close>; every command succeeds silently.\<close>

definition sys_no_mtab :: env where
  "sys_no_mtab =
     system (\<lambda>c. finished 0 []) (\<lambda>f. if f = ''/etc/mtab'' then None else Some [])"

text \<open>A system where nothing is mounted and every command succeeds silently.\<close>

definition sys_quiet :: env where
  "sys_quiet = system (\<lambda>c. finished 0 []) (\<lambda>f. Some [])"

text \<open>
  A system with \<open>/dev/sdb1\<close> mounted on \<open>/mnt\<close> and swap on \<open>/dev/sda3\<close>; every other
  command succeeds silently.
\<close>

definition mount_listing :: string where
  "mount_listing =
     ''/dev/sdb1 on /mnt type ext4 (rw)'' @ [CHR 0x0A] @
     ''proc on /proc type proc (rw)'' @ [CHR 0x0A]"

definition swap_listing :: string where
  "swap_listing =
     ''Filename Type Size Used Priority'' @ [CHR 0x0A] @
     ''/dev/sda3 partition 2097148 0 -2'' @ [CHR 0x0A]"

definition proc_mounts :: "string list" where
  "proc_mounts =
     [''proc /proc proc rw 0 0'' @ [CHR 0x0A],
      ''/dev/sdb1 /mnt ext4 rw 0 0'' @ [CHR 0x0A]]"

definition sys_sdb1_mounted :: env where
  "sys_sdb1_mounted =
     system
       (\<lambda>c. if c = ''mount'' then finished 0 mount_listing
            else if c = ''swapon -s'' then finished 0 swap_listing
            else finished 0 [])
       (\<lambda>f. Some proc_mounts)"

text \<open>\<open>Partition("/dev/sdc1", mountpoint="/mnt")\<close>.\<close>

definition part_sdc1 :: Partition where
  "part_sdc1 =
     \<lparr>device = ''/dev/sdc1'', loop = 0, fstype = None, mountpoint = Some ''/mnt'',
      mkfs_flags = [], mount_options = None\<rparr>"

text \<open>A loop-backed partition as its constructor leaves it, and as \<open>mount\<close> leaves it.\<close>

definition part_image :: Partition where
  "part_image =
     \<lparr>device = ''/tmp/disk.img'', loop = 100, fstype = None,
      mountpoint = Some ''/mnt/loop'', mkfs_flags = [], mount_options = None\<rparr>"

definition part_loop0 :: Partition where
  "part_loop0 =
     \<lparr>device = ''/dev/loop0'', loop = 100, fstype = Some ''ext4'',
      mountpoint = Some ''/mnt/loop'', mkfs_flags = [], mount_options = None\<rparr>"

text \<open>
  A system with \<open>/dev/sdb1\<close> on \<open>/mnt\<close> and \<open>/dev/loop0\<close> on \<open>/mnt/loop\<close>, both busy:
  the graceful unmount fails, \<open>lsof\<close> reports two processes, a forced unmount fails on
  \<open>/mnt\<close> and succeeds on \<open>/mnt/loop\<close>, detaching the loop device fails; every other
  command succeeds silently.
\<close>

definition lsof_listing :: string where
  "lsof_listing =
     ''COMMAND PID USER FD TYPE DEVICE SIZE/OFF NODE NAME'' @ [CHR 0x0A] @
     ''bash 4242 root cwd DIR 8,17 4096 2 /mnt'' @ [CHR 0x0A] @
     ''vim 4250 root 3u REG 8,17 120 14 /mnt/notes'' @ [CHR 0x0A]"

definition busy_mounts :: "string list" where
  "busy_mounts =
     [''/dev/sdb1 /mnt ext4 rw 0 0'' @ [CHR 0x0A],
      ''/dev/loop0 /mnt/loop ext4 rw 0 0'' @ [CHR 0x0A]]"

definition sys_busy :: env where
  "sys_busy =
     system
       (\<lambda>c. if c = ''umount /mnt'' \<or> c = ''umount /mnt/loop'' then finished 32 []
            else if c = ''lsof /mnt'' \<or> c = ''lsof /mnt/loop'' then finished 0 lsof_listing
            else if c = ''umount -f /mnt'' then finished 1 []
            else if c = ''losetup -d /dev/loop0'' then finished 1 []
            else finished 0 [])
       (\<lambda>f. Some busy_mounts)"

text \<open>
  A system with \<open>/dev/sdb1\<close> busy on \<open>/mnt\<close>, where the graceful unmount fails and
  \<open>lsof /mnt\<close> ends as given.
\<close>

definition sys_lsof :: "run_outcome \<Rightarrow> env" where
  "sys_lsof out =
     system
       (\<lambda>c. if c = ''umount /mnt'' then finished 32 []
            else if c = ''lsof /mnt'' then out
            else finished 0 [])
       (\<lambda>f. Some proc_mounts)"

text \<open>
  A system whose mount description files hold the entry of \<open>/dev/sdb1\<close> followed by a
  blank line, and one whose files hold a single word.
\<close>

definition sys_blank_after_match :: env where
  "sys_blank_after_match =
     system (\<lambda>c. finished 0 [])
       (\<lambda>f. Some [''/dev/sdb1 /mnt ext4 rw 0 0'' @ [CHR 0x0A], [CHR 0x0A]])"

definition sys_single_word :: env where
  "sys_single_word =
     system (\<lambda>c. finished 0 []) (\<lambda>f. Some [''none'' @ [CHR 0x0A]])"

text \<open>A system whose mount description files begin with a blank line.\<close>

definition sys_blank_first :: env where
  "sys_blank_first =
     system (\<lambda>c. finished 0 [])
       (\<lambda>f. Some [''proc /proc proc rw 0 0'' @ [CHR 0x0A], [CHR 0x0A],
                   ''/dev/sdb1 /mnt ext4 rw 0 0'' @ [CHR 0x0A]])"

text \<open>The busy system while another process holds the mount table lock.\<close>

definition sys_lock_busy :: env where
  "sys_lock_busy = sys_busy\<lparr>lock_try := (\<lambda>h. RaiseAlreadyLocked)\<rparr>"

section \<open>What the operations leave unchanged\<close>

lemma process_run_world:
  "snd (process_run E w c s i) = w\<lparr>history := history w @ [Exec c s]\<rparr>"
  by (simp add: process_run_def run_cmd_def split: run_outcome.splits)

lemma process_getoutput_world:
  "snd (process_getoutput E w c) = w\<lparr>history := history w @ [Exec c False]\<rparr>"
  using process_run_world [of E w c False True]
  by (cases "process_run E w c False True") (auto simp: process_getoutput_def split: sum.splits)

lemma process_system_output_world:
  "snd (process_system_output E w c s) = w\<lparr>history := history w @ [Exec c s]\<rparr>"
  using process_run_world [of E w c s False]
  by (cases "process_run E w c s False") (auto simp: process_system_output_def split: sum.splits)

subsection \<open>The stored file system type\<close>

lemma mkfs_failure_partition:
  "mkfs E p w fa args = (Inl e, p', w') \<Longrightarrow> p' = p"
  by (auto simp: mkfs_def Let_def split: prod.splits sum.splits if_splits)

lemma mkfs_success_partition:
  "mkfs E p w fa args = (Inr u, p', w') \<Longrightarrow> p' = p\<lparr>fstype := Some (mkfs_fstype p fa)\<rparr>"
  by (auto simp: mkfs_def Let_def split: prod.splits sum.splits if_splits)

lemma mount_try_fstype:
  "mount_try E p w mnt margs = (r, p', w') \<Longrightarrow> fstype p' = fstype p"
  by (auto simp: mount_try_def split: prod.splits sum.splits if_splits)

lemma mount_locked_fstype:
  "mount_locked E p mnt margs chk w = (r, p', w') \<Longrightarrow> fstype p' = fstype p"
  by (auto simp: mount_locked_def dest: mount_try_fstype split: prod.splits sum.splits if_splits)

lemma mount_section_fstype:
  "with_MtabLock E w p (mount_locked E p mnt margs chk) = (r, p', w') \<Longrightarrow>
     fstype p' = fstype p"
  by (auto simp: with_MtabLock_def dest: mount_locked_fstype split: prod.splits sum.splits)

lemma mount_failure_fstype:
  "mount E p w ma fa args chk = (Inl e, p', w') \<Longrightarrow>
     fstype p' = (case resolve_mountpoint p ma of None \<Rightarrow> fstype p | Some m \<Rightarrow> mount_fstype p fa)"
  by (auto simp: mount_def mount_fstype_def Let_def dest!: mount_section_fstype
      split: option.splits prod.splits sum.splits if_splits)

lemma mount_success_fstype:
  "mount E p w ma fa args chk = (Inr u, p', w') \<Longrightarrow> fstype p' = mount_fstype p fa"
  by (auto simp: mount_def mount_fstype_def Let_def
      split: option.splits prod.splits sum.splits if_splits)

text \<open>
  C8. The stored \<open>fstype\<close> is written by \<open>mkfs\<close> (on success) and by \<open>mount\<close> (an
  explicit argument at once, the resolved type again after success), and no failing call
  puts an earlier value back: after a failing \<open>mkfs\<close> it is what it was before the call;
  after a failing \<open>mount\<close> it is what it was before the call when no mount point could
  be resolved, and otherwise the type the call resolved, which is the value before the
  call or the explicit argument the call stored.
\<close>

theorem fstype_never_reverted:
  "fstype (fst (snd (mkfs E p w fa args))) =
     (if isl (fst (mkfs E p w fa args)) then fstype p else Some (mkfs_fstype p fa)) \<and>
   fstype (fst (snd (mount E p w ma fb margs chk))) =
     (if isl (fst (mount E p w ma fb margs chk)) \<and> resolve_mountpoint p ma = None
      then fstype p else mount_fstype p fb) \<and>
   (mount_fstype p fb = fstype p \<or> mount_fstype p fb = fb)"
proof -
  obtain r1 p1 w1 where k: "mkfs E p w fa args = (r1, p1, w1)"
    by (cases "mkfs E p w fa args") auto
  obtain r2 p2 w2 where m: "mount E p w ma fb margs chk = (r2, p2, w2)"
    by (cases "mount E p w ma fb margs chk") auto
  have a: "fstype p1 = (if isl r1 then fstype p else Some (mkfs_fstype p fa))"
    using k by (cases r1) (auto dest: mkfs_failure_partition mkfs_success_partition)
  have b: "fstype p2 =
      (if isl r2 \<and> resolve_mountpoint p ma = None then fstype p else mount_fstype p fb)"
    using m
    by (cases r2)
       (auto dest!: mount_failure_fstype mount_success_fstype split: option.splits)
  have c: "mount_fstype p fb = fstype p \<or> mount_fstype p fb = fb"
    by (simp add: mount_fstype_def split: option.splits)
  show ?thesis using a b c by (simp add: k m)
qed

lemmas scenario_defs = sys_failing_def system_def finished_def world0_def part_sdb1_def

lemmas runner_defs = process_run_def run_cmd_def process_getoutput_def
  process_system_output_def drop_trailing_newline_def rstrip_newlines_def
  reraise_cmd_error_def

lemmas lock_defs = with_MtabLock_def MtabLock_enter_def MtabLock_exit_def
  FileLock_enter_def FileLock_exit_def mtab_device_def

lemmas table_defs = list_mount_devices_def list_mount_points_def splitlines_def
  nth_field_def

lemmas mkfs_defs = mkfs_def mkfs_cmd_def mkfs_args_def mkfs_fstype_def

lemmas mount_defs = mount_def mount_locked_def mount_check_def mount_try_def
  ensure_dir_def mount_args_def mount_fstype_def resolve_mountpoint_def truthy_def

theorem fstype_never_reverted_witness:
  "isl (fst (mkfs sys_failing part_sdb1 world0 None [])) \<and>
   fstype (fst (snd (mkfs sys_failing part_sdb1 world0 None []))) = None \<and>
   isl (fst (mount sys_failing part_sdb1 world0 None (Some ''xfs'') [] True)) \<and>
   fstype (fst (snd (mount sys_failing part_sdb1 world0 None (Some ''xfs'') [] True)))
     = Some ''xfs''"
proof -
  have k: "isl (fst (mkfs sys_failing part_sdb1 world0 None []))"
    by (simp add: scenario_defs runner_defs table_defs mkfs_defs)
  have m: "isl (fst (mount sys_failing part_sdb1 world0 None (Some ''xfs'') [] True))"
    by (simp add: scenario_defs runner_defs table_defs mount_defs lock_defs)
  have p: "fstype part_sdb1 = None" "resolve_mountpoint part_sdb1 None = Some ''/mnt''"
    by (simp_all add: part_sdb1_def resolve_mountpoint_def truthy_def)
  show ?thesis
    using fstype_never_reverted
      [of sys_failing part_sdb1 world0 None "[]" None "Some ''xfs''" "[]" True] k m p
    by (simp add: mount_fstype_def)
qed

subsection \<open>The mount table lock\<close>

lemma MtabLock_exit_released: "\<not> lock_held (MtabLock_exit w)"
  by (simp add: MtabLock_exit_def FileLock_exit_def)

lemma MtabLock_enter_cases:
  "MtabLock_enter E w =
     (case lock_try E (history w) of
        Acquired \<Rightarrow>
          (case file_lines E (history w @ [LockEnter]) mtab_device of
             None \<Rightarrow>
               (Inl OSError,
                w\<lparr>history := history w @ [LockEnter, Open mtab_device], lock_held := True\<rparr>)
           | Some ls \<Rightarrow>
               (Inr (),
                w\<lparr>history := history w @ [LockEnter, Open mtab_device], lock_held := True,
                  mtab_open := True\<rparr>))
      | RaiseLockFailed \<Rightarrow>
          (Inl (PartitionError lock_reason (Some LockFailed)),
           w\<lparr>history := history w @ [LockEnter]\<rparr>)
      | RaiseAlreadyLocked \<Rightarrow>
          (Inl (PartitionError lock_reason (Some AlreadyLocked)),
           w\<lparr>history := history w @ [LockEnter]\<rparr>))"
  by (simp add: MtabLock_enter_def FileLock_enter_def Let_def
      split: lock_outcome.splits option.splits)

text \<open>Once the locked section is entered, the lock is released however its body ends.\<close>

lemma section_releases_lock:
  "fst (MtabLock_enter E w) = Inr u \<Longrightarrow>
     \<not> lock_held (snd (snd (with_MtabLock E w s body)))"
  by (cases "MtabLock_enter E w")
     (auto simp: with_MtabLock_def MtabLock_exit_released split: prod.splits)

lemma with_MtabLock_lock_state:
  "\<not> lock_held w \<Longrightarrow>
     lock_held (snd (snd (with_MtabLock E w s body))) = entry_leak E w"
  by (auto simp: with_MtabLock_def MtabLock_enter_cases MtabLock_exit_released entry_leak_def
      split: prod.splits lock_outcome.splits option.splits)

text \<open>
  The lock state after \<open>mount\<close> and \<open>unmount\<close>, for a caller that does not hold the
  lock: it is free again on every path through the locked section, and held on one path
  only, where \<open>__enter__\<close> fails to open the mount table file after taking the lock.
\<close>

lemma mount_lock_state:
  "\<not> lock_held w \<Longrightarrow>
     lock_held (snd (snd (mount E p w ma fa args chk))) =
       (resolve_mountpoint p ma \<noteq> None \<and> entry_leak E w)"
proof (cases "resolve_mountpoint p ma")
  case None
  assume "\<not> lock_held w"
  then show ?thesis using None by (simp add: mount_def)
next
  case (Some mnt)
  assume nl: "\<not> lock_held w"
  let ?p1 = "case fa of None \<Rightarrow> p | Some f \<Rightarrow> p\<lparr>fstype := Some f\<rparr>"
  let ?sec = "with_MtabLock E w ?p1
      (mount_locked E ?p1 mnt (mount_args ?p1 (mount_fstype p fa) args) chk)"
  have "snd (snd (mount E p w ma fa args chk)) = snd (snd ?sec)"
    using Some by (simp add: mount_def Let_def split: prod.splits sum.splits)
  then show ?thesis
    using with_MtabLock_lock_state [OF nl] Some by simp
qed

lemma process_run_lock_held:
  "process_run E w c s i = (r, w') \<Longrightarrow> lock_held w' = lock_held w"
  using process_run_world [of E w c s i] by simp

lemma unmount_lock_state:
  assumes nl: "\<not> lock_held w"
  shows "lock_held (snd (snd (unmount E p w force))) = entry_leak E w"
proof -
  obtain r p1 w1 where sec: "with_MtabLock E w p (unmount_locked E p force) = (r, p1, w1)"
    by (cases "with_MtabLock E w p (unmount_locked E p force)") auto
  have w1: "lock_held w1 = entry_leak E w"
    using with_MtabLock_lock_state [OF nl, of E p "unmount_locked E p force"] sec by simp
  have "lock_held (snd (snd (unmount E p w force))) = lock_held w1"
  proof (cases r)
    case (Inl e)
    then show ?thesis using sec by (simp add: unmount_def)
  next
    case (Inr fin)
    show ?thesis
    proof (cases fin)
      case (Returned n)
      then show ?thesis using sec Inr by (simp add: unmount_def)
    next
      case (Fell_through n)
      obtain x w2 where d: "process_run E w1 (''losetup -d '' @ device p1) True False = (x, w2)"
        by (cases "process_run E w1 (''losetup -d '' @ device p1) True False") auto
      have "lock_held w2 = lock_held w1"
        using d by (rule process_run_lock_held)
      then show ?thesis
        using sec Inr Fell_through d by (cases x) (simp_all add: unmount_def)
    qed
  qed
  then show ?thesis using w1 by simp
qed

text \<open>
  C1. Every exit path of the locked section of \<open>mount\<close> and \<open>unmount\<close> releases the
  mount table lock, so that no operation ends with the lock held. The code misses one
  path: on a system where \<open>/etc/mtab\<close> cannot be opened, \<open>MtabLock.__enter__\<close> takes the
  file lock, \<open>open\<close> raises, \<open>__exit__\<close> never runs, and both operations end with an
  \<open>OSError\<close> and the lock still held.
\<close>

theorem lock_left_held_when_mtab_unreadable:
  "\<not> lock_held world0 \<and>
   fst (mount sys_no_mtab part_sdb1 world0 None None [] True) = Inl OSError \<and>
   lock_held (snd (snd (mount sys_no_mtab part_sdb1 world0 None None [] True))) \<and>
   fst (unmount sys_no_mtab part_sdb1 world0 True) = Inl OSError \<and>
   lock_held (snd (snd (unmount sys_no_mtab part_sdb1 world0 True)))"
  by (simp add: sys_no_mtab_def system_def finished_def world0_def part_sdb1_def
      mount_def resolve_mountpoint_def truthy_def unmount_def lock_defs)
subsection \<open>Histories of the command runner\<close>

lemma process_run_history:
  "process_run E w c s i = (r, w') \<Longrightarrow> history w' = history w @ [Exec c s]"
  using process_run_world [of E w c s i] by simp

lemma process_getoutput_eq:
  "process_getoutput E w c = (r, w') \<Longrightarrow> w' = w\<lparr>history := history w @ [Exec c False]\<rparr>"
  using process_getoutput_world [of E w c] by simp

lemma list_mount_devices_success:
  "list_mount_devices E w = (Inr devs, w') \<Longrightarrow>
     w' = w\<lparr>history := history w @ [Exec ''mount'' False, Exec ''swapon -s'' False]\<rparr>"
  by (auto simp: list_mount_devices_def dest!: process_getoutput_eq
      split: prod.splits sum.splits)

lemma list_mount_points_world:
  "list_mount_points E w = (r, w') \<Longrightarrow>
     w' = w\<lparr>history := history w @ [Exec ''mount'' False]\<rparr>"
  by (auto simp: list_mount_points_def dest!: process_getoutput_eq
      split: prod.splits sum.splits)

subsection \<open>What \<open>mount\<close> runs\<close>

lemma MtabLock_exit_history: "history (MtabLock_exit w) = history w @ [LockExit]"
  by (simp add: MtabLock_exit_def FileLock_exit_def)

lemma mount_try_success:
  "mount_try E p w mnt margs = (Inr u, p', w') \<Longrightarrow>
     \<exists>h. history w' = h @ [Exec (''mount '' @ margs @ '' '' @ device p' @ '' '' @ mnt) True]"
  by (auto simp: mount_try_def dest!: process_run_history
      split: prod.splits sum.splits if_splits)

lemma mount_locked_success:
  "mount_locked E p mnt margs chk w = (Inr u, p', w') \<Longrightarrow>
     \<exists>h. history w' = h @ [Exec (''mount '' @ margs @ '' '' @ device p' @ '' '' @ mnt) True]"
  by (auto simp: mount_locked_def dest!: mount_try_success
      split: prod.splits sum.splits if_splits)

lemma mount_section_success:
  "with_MtabLock E w p (mount_locked E p mnt margs chk) = (Inr u, p', w') \<Longrightarrow>
     \<exists>h. history w' =
       h @ [Exec (''mount '' @ margs @ '' '' @ device p' @ '' '' @ mnt) True, LockExit]"
  by (auto simp: with_MtabLock_def MtabLock_exit_history dest!: mount_locked_success
      split: prod.splits sum.splits)

lemma mount_args_options: "mount_options q = mount_options p \<Longrightarrow> mount_args q ft args = mount_args p ft args"
  by (simp add: mount_args_def)

lemma mount_unresolved:
  "resolve_mountpoint p ma = None \<Longrightarrow>
     mount E p w ma fa args chk = (Inl (PartitionError no_mountpoint_reason None), p, w)"
  by (simp add: mount_def)

lemma mount_stored_fstype:
  "fstype (fst (snd (mount E p w ma fa args chk))) =
     (if resolve_mountpoint p ma = None then fstype p else mount_fstype p fa)"
proof (cases "mount E p w ma fa args chk")
  case (fields r p' w')
  show ?thesis
  proof (cases r)
    case (Inl e)
    then show ?thesis
      using fields mount_failure_fstype [of E p w ma fa args chk e p' w']
      by (auto split: option.splits)
  next
    case (Inr u)
    then have "resolve_mountpoint p ma \<noteq> None"
      using fields mount_unresolved [of p ma E w fa args chk] by auto
    then show ?thesis
      using fields Inr mount_success_fstype [of E p w ma fa args chk u p' w'] by auto
  qed
qed

text \<open>
  C5 (as amended). \<open>mount\<close> resolves the file system type as the explicit argument
  unless that is \<open>None\<close>, else the stored type, with no default: when neither is set
  the mount command gets no \<open>-t\<close> option. Once a mount point is resolved the stored type
  is the resolved value, whether the mount then succeeds or fails (an explicit argument is
  stored before the mount is attempted); without a mount point it is left as it was. A
  successful mount was issued with the options built from the resolved type.
\<close>

theorem mount_records_resolved_fstype:
  "fstype (fst (snd (mount E p w ma fa args chk))) =
     (if resolve_mountpoint p ma = None then fstype p else mount_fstype p fa) \<and>
   (mount E p w ma fa args chk = (Inr u, p', w') \<longrightarrow>
      (\<exists>h mnt. resolve_mountpoint p ma = Some mnt \<and>
         history w' = h @ [Exec (''mount '' @ mount_args p (mount_fstype p fa) args @ '' '' @
                                  device p' @ '' '' @ mnt) True, LockExit])) \<and>
   mount_fstype p fa = (case fa of None \<Rightarrow> fstype p | Some f \<Rightarrow> Some f) \<and>
   mount_args p None args =
     lstrip (case mount_options p of None \<Rightarrow> args
             | Some opts \<Rightarrow> if opts \<noteq> [] then args @ '' -o '' @ opts else args)"
proof (intro conjI impI)
  show "fstype (fst (snd (mount E p w ma fa args chk))) =
     (if resolve_mountpoint p ma = None then fstype p else mount_fstype p fa)"
    by (rule mount_stored_fstype)
next
  assume ok: "mount E p w ma fa args chk = (Inr u, p', w')"
  obtain mnt where r: "resolve_mountpoint p ma = Some mnt"
    using ok by (cases "resolve_mountpoint p ma") (auto simp: mount_def)
  let ?p1 = "case fa of None \<Rightarrow> p | Some f \<Rightarrow> p\<lparr>fstype := Some f\<rparr>"
  have o: "mount_options ?p1 = mount_options p" by (cases fa) auto
  let ?margs = "mount_args p (mount_fstype p fa) args"
  have margs: "mount_args ?p1 (mount_fstype p fa) args = ?margs"
    using o by (rule mount_args_options)
  obtain p2 where s: "with_MtabLock E w ?p1 (mount_locked E ?p1 mnt ?margs chk) = (Inr u, p2, w')"
    and d: "device p' = device p2"
    using ok r margs
    by (auto simp: mount_def Let_def split: prod.splits sum.splits)
  have "\<exists>h. history w' =
      h @ [Exec (''mount '' @ ?margs @ '' '' @ device p' @ '' '' @ mnt) True, LockExit]"
    using mount_section_success [OF s] d by simp
  then show "\<exists>h mnt. resolve_mountpoint p ma = Some mnt \<and>
         history w' = h @ [Exec (''mount '' @ mount_args p (mount_fstype p fa) args @ '' '' @
                                  device p' @ '' '' @ mnt) True, LockExit]"
    using r by blast
next
  show "mount_fstype p fa = (case fa of None \<Rightarrow> fstype p | Some f \<Rightarrow> Some f)"
    by (simp add: mount_fstype_def)
next
  show "mount_args p None args =
     lstrip (case mount_options p of None \<Rightarrow> args
             | Some opts \<Rightarrow> if opts \<noteq> [] then args @ '' -o '' @ opts else args)"
    by (simp add: mount_args_def)
qed

lemmas quiet_defs = sys_quiet_def system_def finished_def world0_def part_sdb1_def

theorem mount_records_resolved_fstype_witness:
  "mount sys_quiet part_sdb1 world0 None (Some ''xfs'') [] True =
     (Inr (), part_sdb1\<lparr>fstype := Some ''xfs''\<rparr>,
      \<lparr>history = [LockEnter, Open ''/etc/mtab'', Exec ''mount'' False,
                  Exec ''swapon -s'' False, Exec ''mount'' False,
                  Exec ''mount -t xfs /dev/sdb1 /mnt'' True, LockExit],
       lock_held = False, mtab_open = False\<rparr>) \<and>
   (\<exists>h. [LockEnter, Open ''/etc/mtab'', Exec ''mount'' False, Exec ''swapon -s'' False,
         Exec ''mount'' False, Exec ''mount -t xfs /dev/sdb1 /mnt'' True, LockExit] =
        h @ [Exec ''mount -t xfs /dev/sdb1 /mnt'' True, LockExit]) \<and>
   isl (fst (mount sys_failing part_sdb1 world0 None (Some ''xfs'') [] True)) \<and>
   fstype part_sdb1 = None \<and>
   fstype (fst (snd (mount sys_failing part_sdb1 world0 None (Some ''xfs'') [] True))) =
     Some ''xfs''"
proof -
  let ?w' = "\<lparr>history = [LockEnter, Open ''/etc/mtab'', Exec ''mount'' False,
                  Exec ''swapon -s'' False, Exec ''mount'' False,
                  Exec ''mount -t xfs /dev/sdb1 /mnt'' True, LockExit],
       lock_held = False, mtab_open = False\<rparr>"
  have run: "mount sys_quiet part_sdb1 world0 None (Some ''xfs'') [] True =
     (Inr (), part_sdb1\<lparr>fstype := Some ''xfs''\<rparr>, ?w')"
    by (simp add: quiet_defs mount_defs lock_defs runner_defs table_defs lstrip_def
        is_space_str_def)
  have r: "resolve_mountpoint part_sdb1 None = Some ''/mnt''"
    by (simp add: part_sdb1_def resolve_mountpoint_def truthy_def)
  have fail: "isl (fst (mount sys_failing part_sdb1 world0 None (Some ''xfs'') [] True))"
    by (simp add: scenario_defs runner_defs table_defs mount_defs lock_defs)
  have n: "fstype part_sdb1 = None"
    by (simp add: part_sdb1_def)
  note ok = mount_records_resolved_fstype
      [where E = sys_quiet and p = part_sdb1 and w = world0 and ma = None
         and fa = "Some ''xfs''" and args = "[]" and chk = True and u = "()"
         and p' = "part_sdb1\<lparr>fstype := Some ''xfs''\<rparr>" and w' = ?w']
  note failing = mount_records_resolved_fstype
      [where E = sys_failing and p = part_sdb1 and w = world0 and ma = None
         and fa = "Some ''xfs''" and args = "[]" and chk = True]
  have hist: "\<exists>h mnt. resolve_mountpoint part_sdb1 None = Some mnt \<and>
         history ?w' = h @ [Exec (''mount '' @ mount_args part_sdb1
              (mount_fstype part_sdb1 (Some ''xfs'')) [] @ '' '' @
              device (part_sdb1\<lparr>fstype := Some ''xfs''\<rparr>) @ '' '' @ mnt) True, LockExit]"
    using ok [THEN conjunct2, THEN conjunct1] run by blast
  have stored: "fstype (fst (snd (mount sys_failing part_sdb1 world0 None (Some ''xfs'') []
      True))) = mount_fstype part_sdb1 (Some ''xfs'')"
    using failing [THEN conjunct1] r by simp
  show ?thesis
    using run fail n stored by (simp add: mount_fstype_def)
qed

text \<open>
  C5 as stated fails: a partition without a stored type, mounted without a type argument,
  is mounted without \<open>-t\<close> (not with \<open>-t ext2\<close>) and its stored type stays unset.
\<close>

theorem mount_has_no_default_fstype:
  "fstype part_sdb1 = None \<and>
   mount sys_quiet part_sdb1 world0 None None [] True =
     (Inr (), part_sdb1,
      \<lparr>history = [LockEnter, Open ''/etc/mtab'', Exec ''mount'' False,
                  Exec ''swapon -s'' False, Exec ''mount'' False,
                  Exec ''mount  /dev/sdb1 /mnt'' True, LockExit],
       lock_held = False, mtab_open = False\<rparr>) \<and>
   fstype (fst (snd (mount sys_quiet part_sdb1 world0 None None [] True))) \<noteq> Some ''ext2''"
  by (simp add: quiet_defs mount_defs lock_defs runner_defs table_defs lstrip_def)
subsection \<open>The checks before formatting and mounting\<close>

lemma mkfs_refuses_mounted:
  "list_mount_devices E w = (Inr devs, w') \<Longrightarrow> device p \<in> set devs \<Longrightarrow>
     mkfs E p w fa args = (Inl (PartitionError ''Unable to format mounted device'' None), p, w')"
  by (simp add: mkfs_def)

lemma mount_check_mounted:
  "list_mount_devices E w = (Inr devs, w') \<Longrightarrow> device p \<in> set devs \<Longrightarrow>
     mount_check E p w mnt = (Inl (PartitionError ''Attempted to mount mounted device'' None), w')"
  by (simp add: mount_check_def)

lemma mount_check_busy:
  "list_mount_devices E w = (Inr devs, w') \<Longrightarrow> device p \<notin> set devs \<Longrightarrow>
   list_mount_points E w' = (Inr points, w'') \<Longrightarrow> mnt \<in> set points \<Longrightarrow>
     mount_check E p w mnt = (Inl (PartitionError ''Attempted to mount busy directory'' None), w'')"
  by (simp add: mount_check_def)

lemma mount_check_failure:
  assumes r: "resolve_mountpoint p ma = Some mnt"
      and l: "MtabLock_enter E w = (Inr (), w1)"
      and c: "mount_check E (case fa of None \<Rightarrow> p | Some f \<Rightarrow> p\<lparr>fstype := Some f\<rparr>) w1 mnt = (Inl e, w2)"
  shows "mount E p w ma fa args True =
           (Inl e, (case fa of None \<Rightarrow> p | Some f \<Rightarrow> p\<lparr>fstype := Some f\<rparr>), MtabLock_exit w2)"
  using r l c by (simp add: mount_def Let_def with_MtabLock_def mount_locked_def)

text \<open>
  C6 (as amended). With the mount point resolved and the lock taken, a device found in the
  list of mounted devices makes \<open>mount\<close> with the check enabled fail as already mounted,
  and makes \<open>mkfs\<close> fail as already mounted, in both cases with nothing run but the
  listing commands; a target directory found in the list of mount points makes \<open>mount\<close>
  fail as busy when the device itself is not in the list of mounted devices.
\<close>

theorem mounted_device_or_busy_directory_refused:
  "(list_mount_devices E w = (Inr devs, w') \<and> device p \<in> set devs \<longrightarrow>
      fst (mkfs E p w fa args) = Inl (PartitionError ''Unable to format mounted device'' None) \<and>
      history (snd (snd (mkfs E p w fa args))) =
        history w @ [Exec ''mount'' False, Exec ''swapon -s'' False]) \<and>
   (resolve_mountpoint p ma = Some mnt \<and> MtabLock_enter E w = (Inr (), w1) \<and>
    list_mount_devices E w1 = (Inr devs1, w2) \<and> device p \<in> set devs1 \<longrightarrow>
      fst (mount E p w ma fb margs True) =
        Inl (PartitionError ''Attempted to mount mounted device'' None) \<and>
      history (snd (snd (mount E p w ma fb margs True))) =
        history w1 @ [Exec ''mount'' False, Exec ''swapon -s'' False, LockExit]) \<and>
   (resolve_mountpoint p ma = Some mnt \<and> MtabLock_enter E w = (Inr (), w1) \<and>
    list_mount_devices E w1 = (Inr devs1, w2) \<and> device p \<notin> set devs1 \<and>
    list_mount_points E w2 = (Inr points, w3) \<and> mnt \<in> set points \<longrightarrow>
      fst (mount E p w ma fb margs True) =
        Inl (PartitionError ''Attempted to mount busy directory'' None) \<and>
      history (snd (snd (mount E p w ma fb margs True))) =
        history w1 @ [Exec ''mount'' False, Exec ''swapon -s'' False, Exec ''mount'' False,
                      LockExit])"
proof (intro conjI impI)
  assume a: "list_mount_devices E w = (Inr devs, w') \<and> device p \<in> set devs"
  then have "mkfs E p w fa args =
      (Inl (PartitionError ''Unable to format mounted device'' None), p, w')"
    by (simp add: mkfs_refuses_mounted)
  moreover have "history w' = history w @ [Exec ''mount'' False, Exec ''swapon -s'' False]"
    using a list_mount_devices_success [of E w devs w'] by simp
  ultimately show
    "fst (mkfs E p w fa args) = Inl (PartitionError ''Unable to format mounted device'' None)"
    "history (snd (snd (mkfs E p w fa args))) =
        history w @ [Exec ''mount'' False, Exec ''swapon -s'' False]"
    by simp_all
next
  let ?p1 = "case fb of None \<Rightarrow> p | Some f \<Rightarrow> p\<lparr>fstype := Some f\<rparr>"
  have dev: "device ?p1 = device p" by (cases fb) auto
  assume a: "resolve_mountpoint p ma = Some mnt \<and> MtabLock_enter E w = (Inr (), w1) \<and>
    list_mount_devices E w1 = (Inr devs1, w2) \<and> device p \<in> set devs1"
  then have "mount_check E ?p1 w1 mnt =
      (Inl (PartitionError ''Attempted to mount mounted device'' None), w2)"
    using dev mount_check_mounted [of E w1 devs1 w2 ?p1 mnt] by simp
  then have m: "mount E p w ma fb margs True =
      (Inl (PartitionError ''Attempted to mount mounted device'' None), ?p1, MtabLock_exit w2)"
    using a mount_check_failure by simp
  have "history w2 = history w1 @ [Exec ''mount'' False, Exec ''swapon -s'' False]"
    using a list_mount_devices_success [of E w1 devs1 w2] by simp
  then show "fst (mount E p w ma fb margs True) =
        Inl (PartitionError ''Attempted to mount mounted device'' None)"
    "history (snd (snd (mount E p w ma fb margs True))) =
        history w1 @ [Exec ''mount'' False, Exec ''swapon -s'' False, LockExit]"
    using m by (simp_all add: MtabLock_exit_history)
next
  let ?p1 = "case fb of None \<Rightarrow> p | Some f \<Rightarrow> p\<lparr>fstype := Some f\<rparr>"
  have dev: "device ?p1 = device p" by (cases fb) auto
  assume a: "resolve_mountpoint p ma = Some mnt \<and> MtabLock_enter E w = (Inr (), w1) \<and>
    list_mount_devices E w1 = (Inr devs1, w2) \<and> device p \<notin> set devs1 \<and>
    list_mount_points E w2 = (Inr points, w3) \<and> mnt \<in> set points"
  then have "mount_check E ?p1 w1 mnt =
      (Inl (PartitionError ''Attempted to mount busy directory'' None), w3)"
    using dev mount_check_busy [of E w1 devs1 w2 ?p1 points w3 mnt] by simp
  then have m: "mount E p w ma fb margs True =
      (Inl (PartitionError ''Attempted to mount busy directory'' None), ?p1, MtabLock_exit w3)"
    using a mount_check_failure by simp
  have "history w2 = history w1 @ [Exec ''mount'' False, Exec ''swapon -s'' False]"
    using a list_mount_devices_success [of E w1 devs1 w2] by simp
  moreover have "history w3 = history w2 @ [Exec ''mount'' False]"
    using a list_mount_points_world [of E w2 "Inr points" w3] by simp
  ultimately show "fst (mount E p w ma fb margs True) =
        Inl (PartitionError ''Attempted to mount busy directory'' None)"
    "history (snd (snd (mount E p w ma fb margs True))) =
        history w1 @ [Exec ''mount'' False, Exec ''swapon -s'' False, Exec ''mount'' False,
                      LockExit]"
    using m by (simp_all add: MtabLock_exit_history)
qed

lemmas mounted_defs = sys_sdb1_mounted_def system_def finished_def world0_def
  mount_listing_def swap_listing_def proc_mounts_def

lemma mounted_devices_listing: "list_mount_devices sys_sdb1_mounted w =
    (Inr [''/dev/sdb1'', ''proc'', ''/dev/sda3''],
     w\<lparr>history := history w @ [Exec ''mount'' False, Exec ''swapon -s'' False]\<rparr>)"
  by (simp add: mounted_defs runner_defs table_defs is_space_str_def is_linebreak_str_def
      startswith_def)

lemma mounted_points_listing: "list_mount_points sys_sdb1_mounted w =
    (Inr [''/mnt'', ''/proc''], w\<lparr>history := history w @ [Exec ''mount'' False]\<rparr>)"
  by (simp add: mounted_defs runner_defs table_defs is_space_str_def is_linebreak_str_def
      startswith_def)

lemma mounted_lock_entry:
  "MtabLock_enter sys_sdb1_mounted world0 =
     (Inr (), \<lparr>history = [LockEnter, Open ''/etc/mtab''], lock_held = True,
               mtab_open = True\<rparr>)"
  by (simp add: mounted_defs lock_defs)

theorem mounted_device_or_busy_directory_refused_witness:
  "fst (mkfs sys_sdb1_mounted part_sdb1 world0 None []) =
     Inl (PartitionError ''Unable to format mounted device'' None) \<and>
   history (snd (snd (mkfs sys_sdb1_mounted part_sdb1 world0 None []))) =
     [Exec ''mount'' False, Exec ''swapon -s'' False] \<and>
   fst (mount sys_sdb1_mounted part_sdb1 world0 None None [] True) =
     Inl (PartitionError ''Attempted to mount mounted device'' None) \<and>
   history (snd (snd (mount sys_sdb1_mounted part_sdb1 world0 None None [] True))) =
     [LockEnter, Open ''/etc/mtab'', Exec ''mount'' False, Exec ''swapon -s'' False,
      LockExit] \<and>
   fst (mount sys_sdb1_mounted part_sdc1 world0 None None [] True) =
     Inl (PartitionError ''Attempted to mount busy directory'' None) \<and>
   history (snd (snd (mount sys_sdb1_mounted part_sdc1 world0 None None [] True))) =
     [LockEnter, Open ''/etc/mtab'', Exec ''mount'' False, Exec ''swapon -s'' False,
      Exec ''mount'' False, LockExit]"
proof -
  let ?w1 = "\<lparr>history = [LockEnter, Open ''/etc/mtab''], lock_held = True,
              mtab_open = True\<rparr>"
  let ?w2 = "?w1\<lparr>history := history ?w1 @ [Exec ''mount'' False, Exec ''swapon -s'' False]\<rparr>"
  let ?w3 = "?w2\<lparr>history := history ?w2 @ [Exec ''mount'' False]\<rparr>"
  let ?w' = "world0\<lparr>history := history world0 @ [Exec ''mount'' False, Exec ''swapon -s'' False]\<rparr>"
  let ?devs = "[''/dev/sdb1'', ''proc'', ''/dev/sda3'']"
  have r: "resolve_mountpoint part_sdb1 None = Some ''/mnt''"
          "resolve_mountpoint part_sdc1 None = Some ''/mnt''"
    by (simp_all add: part_sdb1_def part_sdc1_def resolve_mountpoint_def truthy_def)
  have d: "device part_sdb1 \<in> set ?devs" "device part_sdc1 \<notin> set ?devs"
    by (simp_all add: part_sdb1_def part_sdc1_def)
  have h: "history world0 = []"
    by (simp add: world0_def)
  have e: "MtabLock_enter sys_sdb1_mounted world0 = (Inr (), ?w1)"
    by (rule mounted_lock_entry)
  have l0: "list_mount_devices sys_sdb1_mounted world0 = (Inr ?devs, ?w')"
    by (rule mounted_devices_listing)
  have l1: "list_mount_devices sys_sdb1_mounted ?w1 = (Inr ?devs, ?w2)"
    by (rule mounted_devices_listing)
  have l2: "list_mount_points sys_sdb1_mounted ?w2 = (Inr [''/mnt'', ''/proc''], ?w3)"
    by (rule mounted_points_listing)
  have busy: "''/mnt'' \<in> set [''/mnt'', ''/proc'']"
    by simp
  note sdb1 = mounted_device_or_busy_directory_refused
      [where E = sys_sdb1_mounted and w = world0 and devs = ?devs and w' = ?w'
         and p = part_sdb1 and fa = None and args = "[]" and ma = None and mnt = "''/mnt''"
         and ?w1.0 = ?w1 and ?devs1.0 = ?devs and ?w2.0 = ?w2 and fb = None and margs = "[]"]
  note sdc1 = mounted_device_or_busy_directory_refused
      [where E = sys_sdb1_mounted and w = world0
         and p = part_sdc1 and ma = None and mnt = "''/mnt''"
         and ?w1.0 = ?w1 and ?devs1.0 = ?devs and ?w2.0 = ?w2 and fb = None and margs = "[]"
         and points = "[''/mnt'', ''/proc'']" and ?w3.0 = ?w3]
  have first: "fst (mkfs sys_sdb1_mounted part_sdb1 world0 None []) =
       Inl (PartitionError ''Unable to format mounted device'' None) \<and>
     history (snd (snd (mkfs sys_sdb1_mounted part_sdb1 world0 None []))) =
       history world0 @ [Exec ''mount'' False, Exec ''swapon -s'' False]"
    using sdb1 [THEN conjunct1] l0 d(1) by blast
  have second: "fst (mount sys_sdb1_mounted part_sdb1 world0 None None [] True) =
       Inl (PartitionError ''Attempted to mount mounted device'' None) \<and>
     history (snd (snd (mount sys_sdb1_mounted part_sdb1 world0 None None [] True))) =
       history ?w1 @ [Exec ''mount'' False, Exec ''swapon -s'' False, LockExit]"
    using sdb1 [THEN conjunct2, THEN conjunct1] r(1) e l1 d(1) by blast
  have third: "fst (mount sys_sdb1_mounted part_sdc1 world0 None None [] True) =
       Inl (PartitionError ''Attempted to mount busy directory'' None) \<and>
     history (snd (snd (mount sys_sdb1_mounted part_sdc1 world0 None None [] True))) =
       history ?w1 @ [Exec ''mount'' False, Exec ''swapon -s'' False, Exec ''mount'' False,
                      LockExit]"
    using sdc1 [THEN conjunct2, THEN conjunct2] r(2) e l1 d(2) l2 busy by blast
  show ?thesis using first second third h by simp
qed

text \<open>
  C6 as stated fails: with \<open>/dev/sdb1\<close> mounted on \<open>/mnt\<close>, the target \<open>/mnt\<close> is in
  the list of mount points, but mounting \<open>/dev/sdb1\<close> there is refused as an already
  mounted device, not as a busy directory.
\<close>

theorem busy_directory_reported_as_mounted_device:
  "resolve_mountpoint part_sdb1 None = Some ''/mnt'' \<and>
   fst (list_mount_points sys_sdb1_mounted world0) = Inr [''/mnt'', ''/proc''] \<and>
   fst (mount sys_sdb1_mounted part_sdb1 world0 None None [] True) =
     Inl (PartitionError ''Attempted to mount mounted device'' None) \<and>
   fst (mount sys_sdb1_mounted part_sdb1 world0 None None [] True) \<noteq>
     Inl (PartitionError ''Attempted to mount busy directory'' None)"
proof -
  have r: "resolve_mountpoint part_sdb1 None = Some ''/mnt''"
    by (simp add: part_sdb1_def resolve_mountpoint_def truthy_def)
  have c: "mount_check sys_sdb1_mounted part_sdb1
      \<lparr>history = [LockEnter, Open ''/etc/mtab''], lock_held = True, mtab_open = True\<rparr> ''/mnt'' =
      (Inl (PartitionError ''Attempted to mount mounted device'' None),
       \<lparr>history = [LockEnter, Open ''/etc/mtab'', Exec ''mount'' False,
                   Exec ''swapon -s'' False], lock_held = True, mtab_open = True\<rparr>)"
    by (simp add: mount_check_def mounted_devices_listing part_sdb1_def)
  have m: "fst (mount sys_sdb1_mounted part_sdb1 world0 None None [] True) =
     Inl (PartitionError ''Attempted to mount mounted device'' None)"
    using mount_check_failure [OF r mounted_lock_entry, of None] c by simp
  show ?thesis using r m by (simp add: mounted_points_listing)
qed
subsection \<open>Unmounting what is not mounted\<close>

lemma get_mountpoint_file_world:
  "get_mountpoint_file E p w f = (r, w') \<Longrightarrow> w' = w\<lparr>history := history w @ [Open f]\<rparr>"
  by (auto simp: get_mountpoint_file_def Let_def split: option.splits)

lemma get_mountpoint_none_world:
  "get_mountpoint E p w None = (Inr m, w') \<Longrightarrow> \<not> truthy m \<Longrightarrow>
     w' = w\<lparr>history := history w @ [Open ''/proc/mounts'', Open ''/etc/mtab'']\<rparr>"
  by (auto simp: get_mountpoint_def get_mountpoint_default_def truthy_def
      dest!: get_mountpoint_file_world split: prod.splits sum.splits if_splits option.splits)

lemma scan_lines_absent: "device_absent E p ls \<Longrightarrow> scan_lines E p ls = Inr None"
  by (induction ls) (auto simp: device_absent_def names_device_def split: list.splits)

lemma get_mountpoint_absent:
  assumes "file_lines E (history w) ''/proc/mounts'' = Some ls1"
      and "file_lines E (history w @ [Open ''/proc/mounts'']) ''/etc/mtab'' = Some ls2"
      and "device_absent E p ls1" and "device_absent E p ls2"
  shows "get_mountpoint E p w None =
           (Inr None, w\<lparr>history := history w @ [Open ''/proc/mounts'', Open ''/etc/mtab'']\<rparr>)"
  using assms
  by (simp add: get_mountpoint_def get_mountpoint_default_def get_mountpoint_file_def
      scan_lines_absent truthy_def)

lemma unmount_when_not_mounted:
  "MtabLock_enter E w = (Inr (), w1) \<Longrightarrow> get_mountpoint E p w1 None = (Inr m, w2) \<Longrightarrow>
   \<not> truthy m \<Longrightarrow> unmount E p w force = (Inr 1, p, MtabLock_exit w2)"
  by (simp add: unmount_def with_MtabLock_def unmount_locked_def)

lemma MtabLock_enter_success:
  "MtabLock_enter E w = (Inr u, w1) \<Longrightarrow>
     w1 = w\<lparr>history := history w @ [LockEnter, Open mtab_device], lock_held := True,
            mtab_open := True\<rparr>"
  by (auto simp: MtabLock_enter_cases split: lock_outcome.splits option.splits)

lemmas unmount_defs = unmount_def unmount_locked_def unmount_force_def
  get_pids_on_mountpoint_def get_mountpoint_def get_mountpoint_default_def
  get_mountpoint_file_def truthy_def dquote_def

subsection \<open>Forced unmount\<close>

lemma process_run_cases:
  "process_run E w c s i =
     (case respond E (history w) c s of
        NotRun \<Rightarrow> Inl OSError
      | Finished r \<Rightarrow>
          if exit_status r \<noteq> 0 \<and> \<not> i then Inl (CmdError c (exit_status r)) else Inr r,
      w\<lparr>history := history w @ [Exec c s]\<rparr>)"
  by (simp add: process_run_def run_cmd_def split: run_outcome.splits)

lemma kill_all_runs:
  "\<forall>h c. respond E h c True \<noteq> NotRun \<Longrightarrow>
     kill_all E w pids = (Inr (), w\<lparr>history := history w @ kill_events pids\<rparr>)"
proof (induction pids arbitrary: w)
  case Nil
  then show ?case by (simp add: kill_events_def)
next
  case (Cons pid pids)
  let ?c = "''kill -9 '' @ show_int pid"
  obtain r where r: "respond E (history w) ?c True = Finished r"
    using Cons.prems by (cases "respond E (history w) ?c True") auto
  have "kill_all E w (pid # pids) = kill_all E (w\<lparr>history := history w @ [Exec ?c True]\<rparr>) pids"
    using r by (simp add: process_run_cases)
  then show ?case
    using Cons.IH [OF Cons.prems] by (simp add: kill_events_def)
qed

lemma unmount_force_escalation:
  assumes q: "get_pids_on_mountpoint E w mnt = (Inr pids, w1)"
      and runs: "\<forall>h c. respond E h c True \<noteq> NotRun"
  shows "unmount_force E w mnt =
    (let hk = history w1 @ kill_events pids;
         fc = ''umount -f '' @ mnt; lc = ''umount -l '' @ mnt
     in case respond E hk fc True of
          NotRun \<Rightarrow> (Inl OSError, w1\<lparr>history := hk @ [Exec fc True]\<rparr>)
        | Finished rf \<Rightarrow>
            if exit_status rf = 0 then (Inr (), w1\<lparr>history := hk @ [Exec fc True]\<rparr>)
            else
              (case respond E (hk @ [Exec fc True]) lc True of
                 NotRun \<Rightarrow> (Inl OSError, w1\<lparr>history := hk @ [Exec fc True, Exec lc True]\<rparr>)
               | Finished rl \<Rightarrow>
                   if exit_status rl = 0
                   then (Inr (), w1\<lparr>history := hk @ [Exec fc True, Exec lc True]\<rparr>)
                   else (Inl (PartitionError ''Force unmount failed''
                                (Some (CmdError lc (exit_status rl)))),
                         w1\<lparr>history := hk @ [Exec fc True, Exec lc True]\<rparr>)))"
  using q kill_all_runs [OF runs, of w1 pids]
  by (simp add: unmount_force_def process_run_cases reraise_cmd_error_def Let_def
      split: run_outcome.splits)


lemma get_pids_world:
  "get_pids_on_mountpoint E w mnt = (r, w') \<Longrightarrow>
     w' = w\<lparr>history := history w @ [Exec (''lsof '' @ mnt) True]\<rparr>"
  using process_system_output_world [of E w "''lsof '' @ mnt" True]
  by (cases "process_system_output E w (''lsof '' @ mnt) True")
     (auto simp: get_pids_on_mountpoint_def Let_def split: sum.splits exn.splits)

text \<open>
  C3 (as amended). When the graceful unmount fails and \<open>force\<close> is set, the
  enumeration succeeds and every command run with elevated privileges can be started,
  \<open>unmount\<close> runs, in this order: \<open>lsof\<close> on the mount point, \<open>kill -9\<close> for each
  process id found, \<open>umount -f\<close> and, only if that fails, \<open>umount -l\<close>; after the lock
  is released it detaches the loop device of a loop-backed partition if one of the two
  unmounts succeeded. It fails with \<open>Force unmount failed\<close> exactly when both unmounts
  fail; otherwise it returns 2, unless detaching the loop device fails, which is the error
  \<open>Unable to cleanup loop device\<close>.
\<close>

theorem forced_unmount_escalation:
  assumes e: "MtabLock_enter E w = (Inr (), w1)"
      and g: "get_mountpoint E p w1 None = (Inr (Some mnt), w2)"
      and m: "mnt \<noteq> []"
      and u: "\<not> succeeded (respond E (history w2) (''umount '' @ mnt) True)"
      and q: "get_pids_on_mountpoint E
                (w2\<lparr>history := history w2 @ [Exec (''umount '' @ mnt) True]\<rparr>) mnt =
              (Inr pids, w4)"
      and runs: "\<forall>h c. respond E h c True \<noteq> NotRun"
  shows "let fcmd = ''umount -f '' @ mnt; lcmd = ''umount -l '' @ mnt;
             dcmd = ''losetup -d '' @ device p;
             hk = history w2 @ [Exec (''umount '' @ mnt) True, Exec (''lsof '' @ mnt) True] @
                  kill_events pids;
             f_out = respond E hk fcmd True;
             l_out = respond E (hk @ [Exec fcmd True]) lcmd True;
             hs = hk @ [Exec fcmd True] @ (if succeeded f_out then [] else [Exec lcmd True]) @
                  [LockExit];
             d_out = respond E hs dcmd True
         in history (snd (snd (unmount E p w True))) =
              hs @ (if (succeeded f_out \<or> succeeded l_out) \<and> loop p \<noteq> 0
                    then [Exec dcmd True] else []) \<and>
            fst (unmount E p w True) =
              (if succeeded f_out \<or> succeeded l_out then
                 (if loop p = 0 \<or> succeeded d_out then Inr 2
                  else Inl (PartitionError ''Unable to cleanup loop device''
                              (Some (CmdError dcmd (status_of d_out)))))
               else Inl (PartitionError ''Force unmount failed''
                           (Some (CmdError lcmd (status_of l_out)))))"
proof -
  let ?ucmd = "''umount '' @ mnt"
  let ?w3 = "w2\<lparr>history := history w2 @ [Exec ?ucmd True]\<rparr>"
  obtain ru where ru: "respond E (history w2) ?ucmd True = Finished ru" "exit_status ru \<noteq> 0"
    using u runs by (cases "respond E (history w2) ?ucmd True") (auto simp: succeeded_def)
  have graceful: "process_run E w2 ?ucmd True False = (Inl (CmdError ?ucmd (exit_status ru)), ?w3)"
    using ru by (simp add: process_run_cases)
  have w4: "w4 = ?w3\<lparr>history := history ?w3 @ [Exec (''lsof '' @ mnt) True]\<rparr>"
    using q by (rule get_pids_world)
  have sec: "unmount_locked E p True w1 =
      (case unmount_force E ?w3 mnt of
         (Inl e', w') \<Rightarrow> (Inl e', p, w')
       | (Inr u, w') \<Rightarrow> (Inr (Fell_through 2), p, w'))"
    using g m graceful by (simp add: unmount_locked_def truthy_def)
  note force = unmount_force_escalation [OF q runs]
  let ?fcmd = "''umount -f '' @ mnt"
  let ?lcmd = "''umount -l '' @ mnt"
  let ?hk = "history w4 @ kill_events pids"
  obtain rf where rf: "respond E ?hk ?fcmd True = Finished rf"
    using runs by (cases "respond E ?hk ?fcmd True") auto
  obtain rl where rl: "respond E (?hk @ [Exec ?fcmd True]) ?lcmd True = Finished rl"
    using runs by (cases "respond E (?hk @ [Exec ?fcmd True]) ?lcmd True") auto
  let ?dcmd = "''losetup -d '' @ device p"
  show ?thesis
  proof (cases "exit_status rf = 0")
    case True
    let ?hs = "?hk @ [Exec ?fcmd True, LockExit]"
    obtain rd where rd: "respond E ?hs ?dcmd True = Finished rd"
      using runs by (cases "respond E ?hs ?dcmd True") auto
    have "unmount_force E ?w3 mnt = (Inr (), w4\<lparr>history := ?hk @ [Exec ?fcmd True]\<rparr>)"
      using force rf True by (simp add: Let_def)
    then show ?thesis
      using e sec rf rd True w4
      by (simp add: unmount_def with_MtabLock_def MtabLock_exit_def FileLock_exit_def
          process_run_cases succeeded_def status_of_def reraise_cmd_error_def Let_def)
  next
    case False
    let ?hs = "?hk @ [Exec ?fcmd True, Exec ?lcmd True, LockExit]"
    obtain rd where rd: "respond E ?hs ?dcmd True = Finished rd"
      using runs by (cases "respond E ?hs ?dcmd True") auto
    show ?thesis
    proof (cases "exit_status rl = 0")
      case True
      have "unmount_force E ?w3 mnt =
          (Inr (), w4\<lparr>history := ?hk @ [Exec ?fcmd True, Exec ?lcmd True]\<rparr>)"
        using force rf rl True False by (simp add: Let_def)
      then show ?thesis
        using e sec rf rl rd True False w4
        by (simp add: unmount_def with_MtabLock_def MtabLock_exit_def FileLock_exit_def
            process_run_cases succeeded_def status_of_def reraise_cmd_error_def Let_def)
    next
      case nl: False
      have "unmount_force E ?w3 mnt =
          (Inl (PartitionError ''Force unmount failed''
                  (Some (CmdError ?lcmd (exit_status rl)))),
           w4\<lparr>history := ?hk @ [Exec ?fcmd True, Exec ?lcmd True]\<rparr>)"
        using force rf rl nl False by (simp add: Let_def)
      then show ?thesis
        using e sec rf rl nl False w4
        by (simp add: unmount_def with_MtabLock_def MtabLock_exit_def FileLock_exit_def
            succeeded_def status_of_def Let_def)
    qed
  qed
qed

lemmas busy_defs = sys_busy_def system_def finished_def world0_def lsof_listing_def
  busy_mounts_def

lemma busy_lock_entry:
  "MtabLock_enter sys_busy world0 =
     (Inr (), \<lparr>history = [LockEnter, Open ''/etc/mtab''], lock_held = True,
               mtab_open = True\<rparr>)"
  by (simp add: busy_defs lock_defs)

lemma busy_runs: "\<forall>h c. respond sys_busy h c True \<noteq> NotRun"
  by (simp add: busy_defs)

lemma show_pids: "show_int 4242 = ''4242''" "show_int 4250 = ''4250''"
  by (simp_all add: show_int_def show_nat.simps digit_char_def)

lemma busy_kills:
  "kill_events [4242, 4250] = [Exec ''kill -9 4242'' True, Exec ''kill -9 4250'' True]"
  by (simp add: kill_events_def show_pids)

lemma busy_pids:
  "get_pids_on_mountpoint sys_busy w ''/mnt'' =
     (Inr [4242, 4250], w\<lparr>history := history w @ [Exec ''lsof /mnt'' True]\<rparr>)"
  "get_pids_on_mountpoint sys_busy w ''/mnt/loop'' =
     (Inr [4242, 4250], w\<lparr>history := history w @ [Exec ''lsof /mnt/loop'' True]\<rparr>)"
  by (simp_all add: busy_defs unmount_defs runner_defs splitlines_def is_linebreak_bytes_def
      is_space_bytes_def py_int_def is_digit_def)

theorem forced_unmount_escalation_witness:
  "fst (unmount sys_busy part_sdb1 world0 True) = Inr 2 \<and>
   history (snd (snd (unmount sys_busy part_sdb1 world0 True))) =
     [LockEnter, Open ''/etc/mtab'', Open ''/proc/mounts'', Exec ''umount /mnt'' True,
      Exec ''lsof /mnt'' True, Exec ''kill -9 4242'' True, Exec ''kill -9 4250'' True,
      Exec ''umount -f /mnt'' True, Exec ''umount -l /mnt'' True, LockExit]"
proof -
  let ?w1 = "\<lparr>history = [LockEnter, Open ''/etc/mtab''], lock_held = True,
              mtab_open = True\<rparr>"
  let ?w2 = "?w1\<lparr>history := history ?w1 @ [Open ''/proc/mounts'']\<rparr>"
  let ?w3 = "?w2\<lparr>history := history ?w2 @ [Exec (''umount '' @ ''/mnt'') True]\<rparr>"
  let ?w4 = "?w3\<lparr>history := history ?w3 @ [Exec ''lsof /mnt'' True]\<rparr>"
  have g: "get_mountpoint sys_busy part_sdb1 ?w1 None = (Inr (Some ''/mnt''), ?w2)"
    by (simp add: busy_defs part_sdb1_def unmount_defs is_space_str_def)
  have m: "''/mnt'' \<noteq> []"
    by simp
  have u: "\<not> succeeded (respond sys_busy (history ?w2) (''umount '' @ ''/mnt'') True)"
    by (simp add: busy_defs succeeded_def)
  have q: "get_pids_on_mountpoint sys_busy ?w3 ''/mnt'' = (Inr [4242, 4250], ?w4)"
    by (rule busy_pids)
  have l: "loop part_sdb1 = 0"
    by (simp add: part_sdb1_def)
  show ?thesis
    using forced_unmount_escalation [OF busy_lock_entry g m u q busy_runs] busy_kills l
    by (simp add: Let_def busy_defs succeeded_def)
qed

text \<open>A loop-backed partition on the busy system: the forced unmount works, the detach fails.\<close>

lemma busy_loop_unmount:
  "unmount sys_busy part_loop0 world0 True =
     (Inl (PartitionError ''Unable to cleanup loop device''
             (Some (CmdError ''losetup -d /dev/loop0'' 1))),
      part_loop0,
      \<lparr>history =
         [LockEnter, Open ''/etc/mtab'', Open ''/proc/mounts'', Exec ''umount /mnt/loop'' True,
          Exec ''lsof /mnt/loop'' True, Exec ''kill -9 4242'' True, Exec ''kill -9 4250'' True,
          Exec ''umount -f /mnt/loop'' True, LockExit, Exec ''losetup -d /dev/loop0'' True],
       lock_held = False, mtab_open = False\<rparr>)"
proof -
  let ?w1 = "\<lparr>history = [LockEnter, Open ''/etc/mtab''], lock_held = True,
              mtab_open = True\<rparr>"
  let ?w2 = "?w1\<lparr>history := history ?w1 @ [Open ''/proc/mounts'']\<rparr>"
  let ?w3 = "?w2\<lparr>history := history ?w2 @ [Exec ''umount /mnt/loop'' True]\<rparr>"
  let ?w4 = "?w3\<lparr>history := history ?w3 @ [Exec ''lsof /mnt/loop'' True]\<rparr>"
  let ?w5 = "?w4\<lparr>history := history ?w4 @ kill_events [4242, 4250] @
                                   [Exec ''umount -f /mnt/loop'' True]\<rparr>"
  have g: "get_mountpoint sys_busy part_loop0 ?w1 None = (Inr (Some ''/mnt/loop''), ?w2)"
    by (simp add: busy_defs part_loop0_def unmount_defs is_space_str_def)
  have u: "process_run sys_busy ?w2 ''umount /mnt/loop'' True False =
      (Inl (CmdError ''umount /mnt/loop'' 32), ?w3)"
    by (simp add: busy_defs process_run_cases)
  have q: "get_pids_on_mountpoint sys_busy ?w3 ''/mnt/loop'' = (Inr [4242, 4250], ?w4)"
    by (rule busy_pids)
  have f: "unmount_force sys_busy ?w3 ''/mnt/loop'' = (Inr (), ?w5)"
    using unmount_force_escalation [OF q busy_runs] by (simp add: Let_def busy_defs)
  have sec: "unmount_locked sys_busy part_loop0 True ?w1 =
      (Inr (Fell_through 2), part_loop0, ?w5)"
    using g u f by (simp add: unmount_locked_def truthy_def)
  show ?thesis
    using busy_lock_entry sec
    by (simp add: unmount_def with_MtabLock_def MtabLock_exit_def FileLock_exit_def
        process_run_cases reraise_cmd_error_def busy_kills busy_defs part_loop0_def)
qed

text \<open>
  C3 as stated fails for a loop-backed partition: the forced unmount succeeds, but
  detaching the loop device fails, and \<open>unmount\<close> raises instead of returning 2.
\<close>

theorem forced_unmount_success_lost_to_loop_cleanup:
  "unmount sys_busy part_loop0 world0 True =
     (Inl (PartitionError ''Unable to cleanup loop device''
             (Some (CmdError ''losetup -d /dev/loop0'' 1))),
      part_loop0,
      \<lparr>history =
         [LockEnter, Open ''/etc/mtab'', Open ''/proc/mounts'', Exec ''umount /mnt/loop'' True,
          Exec ''lsof /mnt/loop'' True, Exec ''kill -9 4242'' True, Exec ''kill -9 4250'' True,
          Exec ''umount -f /mnt/loop'' True, LockExit, Exec ''losetup -d /dev/loop0'' True],
       lock_held = False, mtab_open = False\<rparr>)"
  by (rule busy_loop_unmount)

subsection \<open>The values \<open>unmount\<close> returns\<close>

lemma unmount_after_section:
  assumes "with_MtabLock E w p (unmount_locked E p force) = (Inr (Fell_through n), p, w')"
      and "loop p = 0 \<or> succeeded (respond E (history w') (''losetup -d '' @ device p) True)"
  shows "fst (unmount E p w force) = Inr n"
  using assms
  by (auto simp: unmount_def process_run_cases succeeded_def split: run_outcome.splits)

lemma unmount_graceful_success:
  assumes "MtabLock_enter E w = (Inr (), w1)"
      and "get_mountpoint E p w1 None = (Inr (Some mnt), w2)" and "mnt \<noteq> []"
      and "process_run E w2 (''umount '' @ mnt) True False = (Inr r, w3)"
      and "loop p = 0 \<or>
           succeeded (respond E (history w3 @ [LockExit]) (''losetup -d '' @ device p) True)"
  shows "fst (unmount E p w force) = Inr 1"
proof -
  have "with_MtabLock E w p (unmount_locked E p force) =
      (Inr (Fell_through 1), p, MtabLock_exit w3)"
    using assms by (simp add: with_MtabLock_def unmount_locked_def truthy_def)
  then show ?thesis
    using assms(5) unmount_after_section [of E w p force 1 "MtabLock_exit w3"]
    by (simp add: MtabLock_exit_history)
qed

lemma unmount_forced_success:
  assumes "MtabLock_enter E w = (Inr (), w1)"
      and "get_mountpoint E p w1 None = (Inr (Some mnt), w2)" and "mnt \<noteq> []"
      and "process_run E w2 (''umount '' @ mnt) True False = (Inl (CmdError c st), w3)"
      and "unmount_force E w3 mnt = (Inr (), w4)"
      and "loop p = 0 \<or>
           succeeded (respond E (history w4 @ [LockExit]) (''losetup -d '' @ device p) True)"
  shows "fst (unmount E p w True) = Inr 2"
proof -
  have "with_MtabLock E w p (unmount_locked E p True) =
      (Inr (Fell_through 2), p, MtabLock_exit w4)"
    using assms by (simp add: with_MtabLock_def unmount_locked_def truthy_def)
  then show ?thesis
    using assms(6) unmount_after_section [of E w p True 2 "MtabLock_exit w4"]
    by (simp add: MtabLock_exit_history)
qed

lemma unmount_locked_values:
  "unmount_locked E p force w = (Inr s, p', w') \<Longrightarrow>
     s = Returned 1 \<or> s = Fell_through 1 \<or> s = Fell_through 2"
  by (auto simp: unmount_locked_def
      split: prod.splits sum.splits option.splits exn.splits if_splits)

lemma unmount_values:
  assumes "fst (unmount E p w force) = Inr n"
  shows "n = 1 \<or> n = 2"
proof -
  obtain r p' w' where sec: "with_MtabLock E w p (unmount_locked E p force) = (r, p', w')"
    by (cases "with_MtabLock E w p (unmount_locked E p force)") auto
  obtain s where r: "r = Inr s"
    using assms sec by (cases r) (auto simp: unmount_def)
  obtain v1 where e: "MtabLock_enter E w = (Inr (), v1)"
    using sec r
    by (cases "MtabLock_enter E w") (auto simp: with_MtabLock_def split: sum.splits)
  obtain pb wb where b: "unmount_locked E p force v1 = (Inr s, pb, wb)"
    using sec r e by (cases "unmount_locked E p force v1") (auto simp: with_MtabLock_def)
  have s: "s = Returned 1 \<or> s = Fell_through 1 \<or> s = Fell_through 2"
    using b by (rule unmount_locked_values)
  show ?thesis
    using assms sec r s
    by (auto simp: unmount_def split: prod.splits sum.splits if_splits)
qed

text \<open>
  C2 (as amended). When the lock is taken, \<open>/proc/mounts\<close> and \<open>/etc/mtab\<close> are read,
  and every line of both is a non-blank entry of another device (its first field is not
  the device of the partition, literally or by real path), \<open>unmount\<close> (with any
  \<open>force\<close>) returns 1 without an error, leaves the partition as it was and runs no
  command: it only reads the two tables. The status 1 is not a status of its own:
  \<open>unmount\<close> returns 1 or 2 and nothing else, 1 also after a graceful unmount that
  succeeded, and 2 after a forced unmount that succeeded (for a loop-backed partition,
  in both cases when detaching the loop device succeeds as well).
\<close>

theorem unmount_of_absent_device:
  "(MtabLock_enter E w = (Inr (), w1) \<and>
    file_lines E (history w1) ''/proc/mounts'' = Some ls1 \<and>
    file_lines E (history w1 @ [Open ''/proc/mounts'']) ''/etc/mtab'' = Some ls2 \<and>
    device_absent E p ls1 \<and> device_absent E p ls2 \<longrightarrow>
      fst (unmount E p w force) = Inr 1 \<and>
      fst (snd (unmount E p w force)) = p \<and>
      history (snd (snd (unmount E p w force))) =
        history w @ [LockEnter, Open mtab_device, Open ''/proc/mounts'', Open ''/etc/mtab'',
                     LockExit]) \<and>
   (MtabLock_enter E w = (Inr (), w1) \<and>
    get_mountpoint E p w1 None = (Inr (Some mnt), w2) \<and> mnt \<noteq> [] \<and>
    process_run E w2 (''umount '' @ mnt) True False = (Inr r, w3) \<and>
    (loop p = 0 \<or>
     succeeded (respond E (history w3 @ [LockExit]) (''losetup -d '' @ device p) True)) \<longrightarrow>
      fst (unmount E p w force) = Inr 1) \<and>
   (MtabLock_enter E w = (Inr (), w1) \<and>
    get_mountpoint E p w1 None = (Inr (Some mnt), w2) \<and> mnt \<noteq> [] \<and>
    process_run E w2 (''umount '' @ mnt) True False = (Inl (CmdError c st), w3) \<and>
    unmount_force E w3 mnt = (Inr (), w4) \<and>
    (loop p = 0 \<or>
     succeeded (respond E (history w4 @ [LockExit]) (''losetup -d '' @ device p) True)) \<longrightarrow>
      fst (unmount E p w True) = Inr 2) \<and>
   (\<forall>n. fst (unmount E p w force) = Inr n \<longrightarrow> n = 1 \<or> n = 2)"
proof (intro conjI impI allI)
  assume a: "MtabLock_enter E w = (Inr (), w1) \<and>
    file_lines E (history w1) ''/proc/mounts'' = Some ls1 \<and>
    file_lines E (history w1 @ [Open ''/proc/mounts'']) ''/etc/mtab'' = Some ls2 \<and>
    device_absent E p ls1 \<and> device_absent E p ls2"
  let ?w2 = "w1\<lparr>history := history w1 @ [Open ''/proc/mounts'', Open ''/etc/mtab'']\<rparr>"
  have g: "get_mountpoint E p w1 None = (Inr None, ?w2)"
    using a get_mountpoint_absent by simp
  have u: "unmount E p w force = (Inr 1, p, MtabLock_exit ?w2)"
    using a g unmount_when_not_mounted [of E w w1 p None ?w2 force] by (simp add: truthy_def)
  have h: "history w1 = history w @ [LockEnter, Open mtab_device]"
    using a MtabLock_enter_success [of E w "()" w1] by simp
  show "fst (unmount E p w force) = Inr 1" "fst (snd (unmount E p w force)) = p"
    "history (snd (snd (unmount E p w force))) =
        history w @ [LockEnter, Open mtab_device, Open ''/proc/mounts'', Open ''/etc/mtab'',
                     LockExit]"
    using u h by (simp_all add: MtabLock_exit_history)
next
  assume "MtabLock_enter E w = (Inr (), w1) \<and>
    get_mountpoint E p w1 None = (Inr (Some mnt), w2) \<and> mnt \<noteq> [] \<and>
    process_run E w2 (''umount '' @ mnt) True False = (Inr r, w3) \<and>
    (loop p = 0 \<or>
     succeeded (respond E (history w3 @ [LockExit]) (''losetup -d '' @ device p) True))"
  then show "fst (unmount E p w force) = Inr 1"
    using unmount_graceful_success [of E w w1 p mnt w2 r w3 force] by blast
next
  assume "MtabLock_enter E w = (Inr (), w1) \<and>
    get_mountpoint E p w1 None = (Inr (Some mnt), w2) \<and> mnt \<noteq> [] \<and>
    process_run E w2 (''umount '' @ mnt) True False = (Inl (CmdError c st), w3) \<and>
    unmount_force E w3 mnt = (Inr (), w4) \<and>
    (loop p = 0 \<or>
     succeeded (respond E (history w4 @ [LockExit]) (''losetup -d '' @ device p) True))"
  then show "fst (unmount E p w True) = Inr 2"
    using unmount_forced_success [of E w w1 p mnt w2 c st w3 w4] by blast
next
  fix n
  assume "fst (unmount E p w force) = Inr n"
  then show "n = 1 \<or> n = 2"
    by (rule unmount_values)
qed

theorem unmount_of_absent_device_witness:
  "device_absent sys_sdb1_mounted part_sdc1 proc_mounts \<and>
   fst (unmount sys_sdb1_mounted part_sdc1 world0 False) = Inr 1 \<and>
   fst (snd (unmount sys_sdb1_mounted part_sdc1 world0 False)) = part_sdc1 \<and>
   history (snd (snd (unmount sys_sdb1_mounted part_sdc1 world0 False))) =
     [LockEnter, Open ''/etc/mtab'', Open ''/proc/mounts'', Open ''/etc/mtab'', LockExit] \<and>
   fst (unmount sys_sdb1_mounted part_sdb1 world0 False) = Inr 1 \<and>
   fst (unmount sys_busy part_sdb1 world0 True) = Inr 2"
proof -
  let ?w1 = "\<lparr>history = [LockEnter, Open ''/etc/mtab''], lock_held = True,
              mtab_open = True\<rparr>"
  let ?w2 = "?w1\<lparr>history := history ?w1 @ [Open ''/proc/mounts'']\<rparr>"
  let ?w3 = "?w2\<lparr>history := history ?w2 @ [Exec ''umount /mnt'' True]\<rparr>"
  let ?w4 = "?w3\<lparr>history := history ?w3 @ [Exec ''lsof /mnt'' True]\<rparr>"
  let ?w5 = "?w4\<lparr>history := history ?w4 @ kill_events [4242, 4250] @
                                   [Exec ''umount -f /mnt'' True, Exec ''umount -l /mnt'' True]\<rparr>"
  have e: "MtabLock_enter sys_sdb1_mounted world0 = (Inr (), ?w1)"
    by (rule mounted_lock_entry)
  have f: "file_lines sys_sdb1_mounted (history ?w1) ''/proc/mounts'' = Some proc_mounts"
    "file_lines sys_sdb1_mounted (history ?w1 @ [Open ''/proc/mounts'']) ''/etc/mtab'' =
       Some proc_mounts"
    by (simp_all add: sys_sdb1_mounted_def system_def)
  have a: "device_absent sys_sdb1_mounted part_sdc1 proc_mounts"
    by (simp add: device_absent_def names_device_def mounted_defs part_sdc1_def
        is_space_str_def)
  have g: "get_mountpoint sys_sdb1_mounted part_sdb1 ?w1 None = (Inr (Some ''/mnt''), ?w2)"
    by (simp add: mounted_defs part_sdb1_def unmount_defs is_space_str_def)
  have m: "''/mnt'' \<noteq> []"
    by simp
  have u: "process_run sys_sdb1_mounted ?w2 (''umount '' @ ''/mnt'') True False =
      (Inr \<lparr>exit_status = 0, stdout = []\<rparr>, ?w3)"
    by (simp add: mounted_defs runner_defs)
  have l: "loop part_sdb1 = 0"
    by (simp add: part_sdb1_def)
  have gb: "get_mountpoint sys_busy part_sdb1 ?w1 None = (Inr (Some ''/mnt''), ?w2)"
    by (simp add: busy_defs part_sdb1_def unmount_defs is_space_str_def)
  have ub: "process_run sys_busy ?w2 (''umount '' @ ''/mnt'') True False =
      (Inl (CmdError ''umount /mnt'' 32), ?w3)"
    by (simp add: busy_defs process_run_cases)
  have q: "get_pids_on_mountpoint sys_busy ?w3 ''/mnt'' = (Inr [4242, 4250], ?w4)"
    by (rule busy_pids)
  have fb: "unmount_force sys_busy ?w3 ''/mnt'' = (Inr (), ?w5)"
    using unmount_force_escalation [OF q busy_runs] by (simp add: Let_def busy_defs)
  note absent = unmount_of_absent_device
      [where E = sys_sdb1_mounted and w = world0 and ?w1.0 = ?w1 and ?ls1.0 = proc_mounts
         and ?ls2.0 = proc_mounts and p = part_sdc1 and force = False]
  note mounted = unmount_of_absent_device
      [where E = sys_sdb1_mounted and w = world0 and ?w1.0 = ?w1 and p = part_sdb1
         and mnt = "''/mnt''" and ?w2.0 = ?w2 and r = "\<lparr>exit_status = 0, stdout = []\<rparr>"
         and ?w3.0 = ?w3 and force = False]
  note busy = unmount_of_absent_device
      [where E = sys_busy and w = world0 and ?w1.0 = ?w1 and p = part_sdb1
         and mnt = "''/mnt''" and ?w2.0 = ?w2 and c = "''umount /mnt''" and st = 32
         and ?w3.0 = ?w3 and ?w4.0 = ?w5]
  have first: "fst (unmount sys_sdb1_mounted part_sdc1 world0 False) = Inr 1 \<and>
      fst (snd (unmount sys_sdb1_mounted part_sdc1 world0 False)) = part_sdc1 \<and>
      history (snd (snd (unmount sys_sdb1_mounted part_sdc1 world0 False))) =
        history world0 @ [LockEnter, Open mtab_device, Open ''/proc/mounts'',
                          Open ''/etc/mtab'', LockExit]"
    using absent [THEN conjunct1] e f a by blast
  have second: "fst (unmount sys_sdb1_mounted part_sdb1 world0 False) = Inr 1"
    using mounted [THEN conjunct2, THEN conjunct1] e g m u l by blast
  have third: "fst (unmount sys_busy part_sdb1 world0 True) = Inr 2"
    using busy [THEN conjunct2, THEN conjunct2, THEN conjunct1] busy_lock_entry gb m ub fb l
    by blast
  have fourth: "(1::int) = 1 \<or> (1::int) = 2"
    using mounted [THEN conjunct2, THEN conjunct2, THEN conjunct2] second by blast
  show ?thesis
    using a first second third fourth by (simp add: world0_def mtab_device_def)
qed

text \<open>
  C2 as stated fails in one point: the statuses are not three distinct values. Unmounting
  a partition that is not mounted and unmounting a mounted one gracefully both return 1.
\<close>

theorem already_unmounted_status_is_plain_success:
  "unmount sys_quiet part_sdb1 world0 True =
     (Inr 1, part_sdb1,
      \<lparr>history = [LockEnter, Open ''/etc/mtab'', Open ''/proc/mounts'', Open ''/etc/mtab'',
                  LockExit], lock_held = False, mtab_open = False\<rparr>) \<and>
   unmount sys_sdb1_mounted part_sdb1 world0 True =
     (Inr 1, part_sdb1,
      \<lparr>history = [LockEnter, Open ''/etc/mtab'', Open ''/proc/mounts'',
                  Exec ''umount /mnt'' True, LockExit], lock_held = False, mtab_open = False\<rparr>)"
  by (simp add: quiet_defs mounted_defs unmount_defs lock_defs runner_defs is_space_str_def)

subsection \<open>Enumerating the processes on a mount point\<close>

lemma get_pids_cases:
  "get_pids_on_mountpoint E w mnt =
     (case respond E (history w) (''lsof '' @ mnt) True of
        NotRun \<Rightarrow>
          Inl (PartitionError (''Could not run lsof to identify processes using '' @ dquote mnt)
                 (Some OSError))
      | Finished r \<Rightarrow>
          if exit_status r \<noteq> 0
          then Inl (PartitionError (''Failure executing '' @ dquote (''lsof '' @ mnt))
                      (Some (CmdError (''lsof '' @ mnt) (exit_status r))))
          else parse_pids (drop 1 (splitlines is_linebreak_bytes (rstrip_newlines (stdout r)))),
      w\<lparr>history := history w @ [Exec (''lsof '' @ mnt) True]\<rparr>)"
  by (simp add: get_pids_on_mountpoint_def process_system_output_def process_run_cases Let_def
      split: run_outcome.splits)

lemma unmount_force_aborts:
  "get_pids_on_mountpoint E w mnt = (Inl e, w') \<Longrightarrow> unmount_force E w mnt = (Inl e, w')"
  by (simp add: unmount_force_def)

lemma unmount_force_no_pids:
  "get_pids_on_mountpoint E w mnt = (Inr [], w') \<Longrightarrow>
     \<exists>rest. history (snd (unmount_force E w mnt)) =
       history w' @ [Exec (''umount -f '' @ mnt) True] @ rest"
  by (auto simp: unmount_force_def process_run_cases split: run_outcome.splits exn.splits)

text \<open>
  C4 (as amended). During forced unmount the enumeration raises a \<open>PartitionError\<close>, and
  the recovery stops there with nothing else run, whenever \<open>lsof\<close> cannot be started or
  exits with a non-zero status, whatever the reason. Only a query that exits with status 0
  and prints at most its header line gives the empty list of process ids, and then the
  recovery goes on to the forced unmount.
\<close>

theorem enumeration_fails_on_any_lsof_failure:
  "(respond E (history w) (''lsof '' @ mnt) True = NotRun \<longrightarrow>
      unmount_force E w mnt =
        (Inl (PartitionError (''Could not run lsof to identify processes using '' @ dquote mnt)
                (Some OSError)),
         w\<lparr>history := history w @ [Exec (''lsof '' @ mnt) True]\<rparr>)) \<and>
   (respond E (history w) (''lsof '' @ mnt) True = Finished r \<and> exit_status r \<noteq> 0 \<longrightarrow>
      unmount_force E w mnt =
        (Inl (PartitionError (''Failure executing '' @ dquote (''lsof '' @ mnt))
                (Some (CmdError (''lsof '' @ mnt) (exit_status r)))),
         w\<lparr>history := history w @ [Exec (''lsof '' @ mnt) True]\<rparr>)) \<and>
   (respond E (history w) (''lsof '' @ mnt) True = Finished r \<and> exit_status r = 0 \<and>
    length (splitlines is_linebreak_bytes (rstrip_newlines (stdout r))) \<le> 1 \<longrightarrow>
      fst (get_pids_on_mountpoint E w mnt) = Inr [] \<and>
      (\<exists>rest. history (snd (unmount_force E w mnt)) =
         history w @ [Exec (''lsof '' @ mnt) True, Exec (''umount -f '' @ mnt) True] @ rest))"
proof (intro conjI impI)
  assume "respond E (history w) (''lsof '' @ mnt) True = NotRun"
  then show "unmount_force E w mnt =
        (Inl (PartitionError (''Could not run lsof to identify processes using '' @ dquote mnt)
                (Some OSError)),
         w\<lparr>history := history w @ [Exec (''lsof '' @ mnt) True]\<rparr>)"
    by (simp add: unmount_force_aborts get_pids_cases)
next
  assume "respond E (history w) (''lsof '' @ mnt) True = Finished r \<and> exit_status r \<noteq> 0"
  then show "unmount_force E w mnt =
        (Inl (PartitionError (''Failure executing '' @ dquote (''lsof '' @ mnt))
                (Some (CmdError (''lsof '' @ mnt) (exit_status r)))),
         w\<lparr>history := history w @ [Exec (''lsof '' @ mnt) True]\<rparr>)"
    by (simp add: unmount_force_aborts get_pids_cases)
next
  assume a: "respond E (history w) (''lsof '' @ mnt) True = Finished r \<and> exit_status r = 0 \<and>
    length (splitlines is_linebreak_bytes (rstrip_newlines (stdout r))) \<le> 1"
  then have "drop 1 (splitlines is_linebreak_bytes (rstrip_newlines (stdout r))) = []"
    by simp
  then have q: "get_pids_on_mountpoint E w mnt =
      (Inr [], w\<lparr>history := history w @ [Exec (''lsof '' @ mnt) True]\<rparr>)"
    using a by (simp add: get_pids_cases)
  show "fst (get_pids_on_mountpoint E w mnt) = Inr []"
    using q by simp
  show "\<exists>rest. history (snd (unmount_force E w mnt)) =
         history w @ [Exec (''lsof '' @ mnt) True, Exec (''umount -f '' @ mnt) True] @ rest"
    using unmount_force_no_pids [OF q] by simp
qed

lemmas lsof_defs = sys_lsof_def system_def finished_def world0_def proc_mounts_def

theorem enumeration_fails_on_any_lsof_failure_witness:
  "fst (unmount_force (sys_lsof NotRun) world0 ''/mnt'') =
     Inl (PartitionError (''Could not run lsof to identify processes using '' @ dquote ''/mnt'')
            (Some OSError)) \<and>
   unmount_force (sys_lsof (finished 2 [])) world0 ''/mnt'' =
     (Inl (PartitionError (''Failure executing '' @ dquote ''lsof /mnt'')
             (Some (CmdError ''lsof /mnt'' 2))),
      world0\<lparr>history := [Exec ''lsof /mnt'' True]\<rparr>) \<and>
   fst (get_pids_on_mountpoint
          (sys_lsof (finished 0 ''COMMAND PID USER FD TYPE DEVICE SIZE/OFF NODE NAME''))
          world0 ''/mnt'') = Inr []"
proof -
  let ?hdr = "''COMMAND PID USER FD TYPE DEVICE SIZE/OFF NODE NAME''"
  have a: "respond (sys_lsof NotRun) (history world0) (''lsof '' @ ''/mnt'') True = NotRun"
    by (simp add: lsof_defs)
  have b: "respond (sys_lsof (finished 2 [])) (history world0) (''lsof '' @ ''/mnt'') True =
             Finished \<lparr>exit_status = 2, stdout = []\<rparr> \<and>
           exit_status \<lparr>exit_status = 2, stdout = []\<rparr> \<noteq> 0"
    by (simp add: lsof_defs)
  have c: "respond (sys_lsof (finished 0 ?hdr)) (history world0) (''lsof '' @ ''/mnt'') True =
             Finished \<lparr>exit_status = 0, stdout = ?hdr\<rparr> \<and>
           exit_status \<lparr>exit_status = 0, stdout = ?hdr\<rparr> = 0 \<and>
           length (splitlines is_linebreak_bytes
                     (rstrip_newlines (stdout \<lparr>exit_status = 0, stdout = ?hdr\<rparr>))) \<le> 1"
    by (simp add: lsof_defs splitlines_def rstrip_newlines_def is_linebreak_bytes_def)
  have first: "unmount_force (sys_lsof NotRun) world0 ''/mnt'' =
        (Inl (PartitionError
                (''Could not run lsof to identify processes using '' @ dquote ''/mnt'')
                (Some OSError)),
         world0\<lparr>history := history world0 @ [Exec (''lsof '' @ ''/mnt'') True]\<rparr>)"
    using enumeration_fails_on_any_lsof_failure
      [where E = "sys_lsof NotRun" and w = world0 and mnt = "''/mnt''", THEN conjunct1] a
    by blast
  have second: "unmount_force (sys_lsof (finished 2 [])) world0 ''/mnt'' =
        (Inl (PartitionError (''Failure executing '' @ dquote (''lsof '' @ ''/mnt''))
                (Some (CmdError (''lsof '' @ ''/mnt'')
                        (exit_status \<lparr>exit_status = 2, stdout = []\<rparr>)))),
         world0\<lparr>history := history world0 @ [Exec (''lsof '' @ ''/mnt'') True]\<rparr>)"
    using enumeration_fails_on_any_lsof_failure
      [where E = "sys_lsof (finished 2 [])" and w = world0 and mnt = "''/mnt''"
         and r = "\<lparr>exit_status = 2, stdout = []\<rparr>", THEN conjunct2, THEN conjunct1] b
    by blast
  have third: "fst (get_pids_on_mountpoint (sys_lsof (finished 0 ?hdr)) world0 ''/mnt'') = Inr []"
    using enumeration_fails_on_any_lsof_failure
      [where E = "sys_lsof (finished 0 ?hdr)" and w = world0 and mnt = "''/mnt''"
         and r = "\<lparr>exit_status = 0, stdout = ?hdr\<rparr>", THEN conjunct2, THEN conjunct2] c
    by blast
  show ?thesis
    using first second third by (simp add: world0_def)
qed

text \<open>
  C4 as stated fails: \<open>lsof\<close> reports that nothing matched by exit status 1 and no
  output, and the code treats that like any other failed command: the enumeration raises
  and no forced unmount is attempted.
\<close>

theorem lsof_without_matches_aborts_recovery:
  "unmount (sys_lsof (finished 1 [])) part_sdb1 world0 True =
     (Inl (PartitionError (''Failure executing '' @ dquote ''lsof /mnt'')
             (Some (CmdError ''lsof /mnt'' 1))),
      part_sdb1,
      \<lparr>history = [LockEnter, Open ''/etc/mtab'', Open ''/proc/mounts'',
                  Exec ''umount /mnt'' True, Exec ''lsof /mnt'' True, LockExit],
       lock_held = False, mtab_open = False\<rparr>)"
  by (simp add: lsof_defs part_sdb1_def unmount_defs lock_defs runner_defs is_space_str_def
      Let_def)

subsection \<open>Detaching the loop device\<close>

lemma no_new_detach_refl: "no_new_detach w w"
  by (simp add: no_new_detach_def)

lemma no_new_detach_trans:
  "no_new_detach w w' \<Longrightarrow> no_new_detach w' w'' \<Longrightarrow> no_new_detach w w''"
  by (auto simp: no_new_detach_def)

lemma no_new_detach_append:
  "history w' = history w @ evs \<Longrightarrow> \<forall>e \<in> set evs. \<not> is_detach e \<Longrightarrow> no_new_detach w w'"
  by (auto simp: no_new_detach_def)

lemma process_run_no_detach:
  "\<not> startswith c ''losetup -d '' \<Longrightarrow> process_run E w c s i = (r, w') \<Longrightarrow>
     no_new_detach w w'"
  using process_run_world [of E w c s i]
  by (auto intro!: no_new_detach_append [where evs = "[Exec c s]"])

lemma get_mountpoint_no_detach:
  "get_mountpoint E p w None = (r, w') \<Longrightarrow> no_new_detach w w'"
  by (auto simp: get_mountpoint_def get_mountpoint_default_def no_new_detach_def
      dest!: get_mountpoint_file_world split: prod.splits sum.splits if_splits)

lemma get_pids_no_detach:
  "get_pids_on_mountpoint E w mnt = (r, w') \<Longrightarrow> no_new_detach w w'"
  by (auto simp: no_new_detach_def startswith_def dest!: get_pids_world)

lemma kill_all_no_detach: "kill_all E w pids = (r, w') \<Longrightarrow> no_new_detach w w'"
proof (induction pids arbitrary: w)
  case Nil
  then show ?case by (simp add: no_new_detach_refl)
next
  case (Cons pid pids)
  let ?c = "''kill -9 '' @ show_int pid"
  obtain x w1 where k: "process_run E w ?c True True = (x, w1)"
    by (cases "process_run E w ?c True True") auto
  have a: "no_new_detach w w1"
    using k by (rule process_run_no_detach [rotated]) (simp add: startswith_def)
  show ?case
  proof (cases x)
    case (Inl e)
    then show ?thesis using Cons.prems k a by simp
  next
    case (Inr y)
    then have "kill_all E w1 pids = (r, w')" using Cons.prems k by simp
    then show ?thesis using Cons.IH a no_new_detach_trans by blast
  qed
qed

lemma umount_not_detach:
  "\<not> startswith (''umount '' @ mnt) ''losetup -d ''"
  "\<not> startswith (''umount -f '' @ mnt) ''losetup -d ''"
  "\<not> startswith (''umount -l '' @ mnt) ''losetup -d ''"
  by (simp_all add: startswith_def)

lemma unmount_force_no_detach:
  assumes "unmount_force E w mnt = (r, w')"
  shows "no_new_detach w w'"
proof -
  obtain x1 w1 where q: "get_pids_on_mountpoint E w mnt = (x1, w1)"
    by (cases "get_pids_on_mountpoint E w mnt") auto
  have a1: "no_new_detach w w1" using q by (rule get_pids_no_detach)
  show ?thesis
  proof (cases x1)
    case (Inl e)
    then show ?thesis using assms q a1 by (simp add: unmount_force_def)
  next
    case (Inr pids)
    obtain x2 w2 where k: "kill_all E w1 pids = (x2, w2)"
      by (cases "kill_all E w1 pids") auto
    have a2: "no_new_detach w w2"
      using a1 kill_all_no_detach [OF k] by (rule no_new_detach_trans)
    show ?thesis
    proof (cases x2)
      case (Inl e)
      then show ?thesis using assms q Inr k a2 by (simp add: unmount_force_def)
    next
      case u: (Inr y)
      obtain x3 w3 where f: "process_run E w2 (''umount -f '' @ mnt) True False = (x3, w3)"
        by (cases "process_run E w2 (''umount -f '' @ mnt) True False") auto
      have a3: "no_new_detach w w3"
        using a2 process_run_no_detach [OF umount_not_detach(2) f] by (rule no_new_detach_trans)
      obtain x4 w4 where l: "process_run E w3 (''umount -l '' @ mnt) True False = (x4, w4)"
        by (cases "process_run E w3 (''umount -l '' @ mnt) True False") auto
      have a4: "no_new_detach w w4"
        using a3 process_run_no_detach [OF umount_not_detach(3) l] by (rule no_new_detach_trans)
      have "w' = w3 \<or> w' = w4"
        using assms q Inr k u f l
        by (auto simp: unmount_force_def split: sum.splits exn.splits)
      then show ?thesis using a3 a4 by auto
    qed
  qed
qed

lemma unmount_locked_no_detach:
  assumes "unmount_locked E p force w = (r, p', w')"
  shows "no_new_detach w w'"
proof -
  obtain x1 w1 where g: "get_mountpoint E p w None = (x1, w1)"
    by (cases "get_mountpoint E p w None") auto
  have a1: "no_new_detach w w1" using g by (rule get_mountpoint_no_detach)
  show ?thesis
  proof (cases x1)
    case (Inl e)
    then show ?thesis using assms g a1 by (simp add: unmount_locked_def)
  next
    case (Inr mo)
    show ?thesis
    proof (cases "truthy mo")
      case False
      then show ?thesis using assms g Inr a1 by (simp add: unmount_locked_def)
    next
      case True
      then obtain mnt where mo: "mo = Some mnt"
        by (cases mo) (auto simp: truthy_def)
      obtain x2 w2 where u: "process_run E w1 (''umount '' @ mnt) True False = (x2, w2)"
        by (cases "process_run E w1 (''umount '' @ mnt) True False") auto
      have a2: "no_new_detach w w2"
        using a1 process_run_no_detach [OF umount_not_detach(1) u] by (rule no_new_detach_trans)
      obtain x3 w3 where f: "unmount_force E w2 mnt = (x3, w3)"
        by (cases "unmount_force E w2 mnt") auto
      have a3: "no_new_detach w w3"
        using a2 unmount_force_no_detach [OF f] by (rule no_new_detach_trans)
      have "w' = w2 \<or> w' = w3"
        using assms g Inr True mo u f
        by (auto simp: unmount_locked_def split: sum.splits exn.splits if_splits)
      then show ?thesis using a2 a3 by auto
    qed
  qed
qed

lemma unmount_locked_partition:
  "unmount_locked E p force w = (r, p', w') \<Longrightarrow> p' = p"
  by (auto simp: unmount_locked_def split: prod.splits sum.splits option.splits exn.splits if_splits)

lemma unmount_locked_fell_through:
  "unmount_locked E p force w = (Inr (Fell_through n), p', w') \<Longrightarrow>
     \<exists>mnt w2. get_mountpoint E p w None = (Inr (Some mnt), w2) \<and> mnt \<noteq> [] \<and> (n = 1 \<or> n = 2)"
  by (auto simp: unmount_locked_def truthy_def
      split: prod.splits sum.splits option.splits exn.splits if_splits)

lemma unmount_section:
  assumes "with_MtabLock E w p (unmount_locked E p force) = (r, p', w')"
  shows "no_new_detach w w' \<and> p' = p"
proof (cases "MtabLock_enter E w")
  case (Pair x w1)
  show ?thesis
  proof (cases x)
    case (Inl e)
    then have "w' = w1" "p' = p" using assms Pair by (simp_all add: with_MtabLock_def)
    moreover have "no_new_detach w w1"
      using Pair Inl
      by (auto simp: MtabLock_enter_cases no_new_detach_def
          split: lock_outcome.splits option.splits)
    ultimately show ?thesis by simp
  next
    case (Inr u)
    obtain rb pb wb where b: "unmount_locked E p force w1 = (rb, pb, wb)"
      by (cases "unmount_locked E p force w1") auto
    have w1: "no_new_detach w w1"
      using Pair Inr MtabLock_enter_success [of E w u w1] by (auto simp: no_new_detach_def)
    have "no_new_detach w1 wb" using b by (rule unmount_locked_no_detach)
    then have "no_new_detach w wb" using w1 no_new_detach_trans by blast
    moreover have "w' = MtabLock_exit wb" "p' = pb"
      using assms Pair Inr b by (simp_all add: with_MtabLock_def)
    moreover have "pb = p" using b by (rule unmount_locked_partition)
    ultimately show ?thesis
      by (auto simp: no_new_detach_def MtabLock_exit_history)
  qed
qed

lemma unmount_final_world:
  assumes "with_MtabLock E w p (unmount_locked E p force) = (r, p', w')"
  shows "snd (snd (unmount E p w force)) =
           (if (\<exists>n. r = Inr (Fell_through n)) \<and> loop p' \<noteq> 0
            then w'\<lparr>history := history w' @ [Exec (''losetup -d '' @ device p') True]\<rparr>
            else w')"
  using assms process_run_world [of E w' "''losetup -d '' @ device p'" True False]
  by (cases "process_run E w' (''losetup -d '' @ device p') True False")
     (auto simp: unmount_def split: sum.splits section_end.splits)

lemma process_run_success:
  "process_run E w c True False = (Inr r, w') \<Longrightarrow>
     history w' = history w @ [Exec c True] \<and> succeeded (respond E (history w) c True)"
  by (auto simp: process_run_cases succeeded_def split: run_outcome.splits if_splits)

lemma unmount_force_success:
  assumes "unmount_force E w mnt = (Inr u, w')"
  shows "\<exists>h c. history w' = h @ [Exec c True] \<and>
           (c = ''umount -f '' @ mnt \<or> c = ''umount -l '' @ mnt) \<and>
           succeeded (respond E h c True)"
proof -
  obtain pids w1 where q: "get_pids_on_mountpoint E w mnt = (Inr pids, w1)"
    using assms
    by (cases "get_pids_on_mountpoint E w mnt")
       (auto simp: unmount_force_def split: sum.splits)
  obtain w2 where k: "kill_all E w1 pids = (Inr (), w2)"
    using assms q
    by (cases "kill_all E w1 pids") (auto simp: unmount_force_def split: sum.splits)
  obtain x3 w3 where f: "process_run E w2 (''umount -f '' @ mnt) True False = (x3, w3)"
    by (cases "process_run E w2 (''umount -f '' @ mnt) True False") auto
  show ?thesis
  proof (cases x3)
    case (Inr r)
    then have "w' = w3" using assms q k f by (simp add: unmount_force_def)
    then show ?thesis using process_run_success [of E w2 "''umount -f '' @ mnt" r w3] f Inr
      by blast
  next
    case (Inl e)
    obtain x4 w4 where l: "process_run E w3 (''umount -l '' @ mnt) True False = (x4, w4)"
      by (cases "process_run E w3 (''umount -l '' @ mnt) True False") auto
    have "\<exists>r. x4 = Inr r \<and> w' = w4"
      using assms q k f Inl l
      by (cases x4) (auto simp: unmount_force_def split: exn.splits)
    then show ?thesis using process_run_success [of E w3 "''umount -l '' @ mnt" _ w4] l
      by blast
  qed
qed

lemma unmount_locked_completed:
  assumes "unmount_locked E p force w = (Inr (Fell_through n), p', w')"
  shows "\<exists>mnt w2 h c. get_mountpoint E p w None = (Inr (Some mnt), w2) \<and> mnt \<noteq> [] \<and>
           history w' = h @ [Exec c True] \<and>
           (c = ''umount '' @ mnt \<or> c = ''umount -f '' @ mnt \<or> c = ''umount -l '' @ mnt) \<and>
           succeeded (respond E h c True)"
proof -
  obtain mnt w2 where g: "get_mountpoint E p w None = (Inr (Some mnt), w2)" "mnt \<noteq> []"
    using unmount_locked_fell_through [OF assms] by blast
  obtain x3 w3 where u: "process_run E w2 (''umount '' @ mnt) True False = (x3, w3)"
    by (cases "process_run E w2 (''umount '' @ mnt) True False") auto
  show ?thesis
  proof (cases x3)
    case (Inr r)
    then have "w' = w3" using assms g u by (simp add: unmount_locked_def truthy_def)
    then show ?thesis
      using process_run_success [of E w2 "''umount '' @ mnt" r w3] u Inr g by blast
  next
    case (Inl e)
    then have "unmount_force E w3 mnt = (Inr (), w')"
      using assms g u
      by (cases "unmount_force E w3 mnt")
         (auto simp: unmount_locked_def truthy_def split: exn.splits if_splits sum.splits)
    then show ?thesis using unmount_force_success [of E w3 mnt "()" w'] g by blast
  qed
qed

text \<open>
  C9 (as amended). When \<open>unmount\<close> of a loop-backed partition has taken the lock and
  \<open>get_mountpoint\<close> finds nothing, it leaves by the \<open>return\<close> inside the locked
  section: the result is 1, only the lock and the two tables were touched, and no
  \<open>losetup -d\<close> was run. Whenever \<open>unmount\<close> does run \<open>losetup -d\<close>, the partition is
  loop-backed, a mount point was resolved, and the last command of the locked section was
  an \<open>umount\<close> of that mount point (plain, \<open>-f\<close> or \<open>-l\<close>) that exited with status 0;
  the detach command is then the last thing run, after the lock was released.
\<close>

theorem loop_detach_only_after_unmount:
  "(0 < loop p \<and> MtabLock_enter E w = (Inr (), w1) \<and>
    get_mountpoint E p w1 None = (Inr None, w2) \<longrightarrow>
      fst (unmount E p w force) = Inr 1 \<and>
      history (snd (snd (unmount E p w force))) =
        history w @ [LockEnter, Open mtab_device, Open ''/proc/mounts'', Open ''/etc/mtab'',
                     LockExit] \<and>
      no_new_detach w (snd (snd (unmount E p w force)))) \<and>
   ((\<exists>e \<in> set (history (snd (snd (unmount E p w force)))). is_detach e \<and> e \<notin> set (history w)) \<longrightarrow>
      loop p \<noteq> 0 \<and>
      (\<exists>v1 mnt v2 n v3 h c.
         MtabLock_enter E w = (Inr (), v1) \<and>
         get_mountpoint E p v1 None = (Inr (Some mnt), v2) \<and> mnt \<noteq> [] \<and>
         unmount_locked E p force v1 = (Inr (Fell_through n), p, v3) \<and>
         history v3 = h @ [Exec c True] \<and>
         (c = ''umount '' @ mnt \<or> c = ''umount -f '' @ mnt \<or> c = ''umount -l '' @ mnt) \<and>
         succeeded (respond E h c True) \<and>
         history (snd (snd (unmount E p w force))) =
           history v3 @ [LockExit, Exec (''losetup -d '' @ device p) True]))"
proof (intro conjI impI)
  assume a: "0 < loop p \<and> MtabLock_enter E w = (Inr (), w1) \<and>
    get_mountpoint E p w1 None = (Inr None, w2)"
  then have u: "unmount E p w force = (Inr 1, p, MtabLock_exit w2)"
    using unmount_when_not_mounted [of E w w1 p None w2 force] by (simp add: truthy_def)
  have "w2 = w1\<lparr>history := history w1 @ [Open ''/proc/mounts'', Open ''/etc/mtab'']\<rparr>"
    using a get_mountpoint_none_world [of E p w1 None w2] by (simp add: truthy_def)
  moreover have "history w1 = history w @ [LockEnter, Open mtab_device]"
    using a MtabLock_enter_success [of E w "()" w1] by simp
  ultimately have h: "history (MtabLock_exit w2) =
      history w @ [LockEnter, Open mtab_device, Open ''/proc/mounts'', Open ''/etc/mtab'',
                   LockExit]"
    by (simp add: MtabLock_exit_history)
  show "fst (unmount E p w force) = Inr 1"
    using u by simp
  show "history (snd (snd (unmount E p w force))) =
        history w @ [LockEnter, Open mtab_device, Open ''/proc/mounts'', Open ''/etc/mtab'',
                     LockExit]"
    using u h by simp
  show "no_new_detach w (snd (snd (unmount E p w force)))"
    using u h by (auto simp: no_new_detach_def)
next
  assume d: "\<exists>e \<in> set (history (snd (snd (unmount E p w force)))).
      is_detach e \<and> e \<notin> set (history w)"
  obtain r p' w' where sec: "with_MtabLock E w p (unmount_locked E p force) = (r, p', w')"
    by (cases "with_MtabLock E w p (unmount_locked E p force)") auto
  have s: "no_new_detach w w'" "p' = p"
    using unmount_section [OF sec] by simp_all
  note fin = unmount_final_world [OF sec]
  have run: "(\<exists>n. r = Inr (Fell_through n)) \<and> loop p \<noteq> 0"
  proof (rule ccontr)
    assume "\<not> ((\<exists>n. r = Inr (Fell_through n)) \<and> loop p \<noteq> 0)"
    then have "snd (snd (unmount E p w force)) = w'"
      using fin s by auto
    then show False
      using d s by (auto simp: no_new_detach_def)
  qed
  then obtain n where n: "r = Inr (Fell_through n)" by blast
  obtain v1 where e: "MtabLock_enter E w = (Inr (), v1)"
    using sec n
    by (cases "MtabLock_enter E w") (auto simp: with_MtabLock_def split: sum.splits)
  obtain v3 where b: "unmount_locked E p force v1 = (Inr (Fell_through n), p, v3)"
      and w': "w' = MtabLock_exit v3"
    using sec n e s
    by (cases "unmount_locked E p force v1") (auto simp: with_MtabLock_def)
  obtain mnt v2 h c where g: "get_mountpoint E p v1 None = (Inr (Some mnt), v2)" "mnt \<noteq> []"
      and c: "history v3 = h @ [Exec c True]"
        "c = ''umount '' @ mnt \<or> c = ''umount -f '' @ mnt \<or> c = ''umount -l '' @ mnt"
        "succeeded (respond E h c True)"
    using unmount_locked_completed [OF b] by blast
  have "history (snd (snd (unmount E p w force))) =
      history v3 @ [LockExit, Exec (''losetup -d '' @ device p) True]"
    using fin run n s w' by (simp add: MtabLock_exit_history)
  then show "\<exists>v1 mnt v2 n v3 h c.
         MtabLock_enter E w = (Inr (), v1) \<and>
         get_mountpoint E p v1 None = (Inr (Some mnt), v2) \<and> mnt \<noteq> [] \<and>
         unmount_locked E p force v1 = (Inr (Fell_through n), p, v3) \<and>
         history v3 = h @ [Exec c True] \<and>
         (c = ''umount '' @ mnt \<or> c = ''umount -f '' @ mnt \<or> c = ''umount -l '' @ mnt) \<and>
         succeeded (respond E h c True) \<and>
         history (snd (snd (unmount E p w force))) =
           history v3 @ [LockExit, Exec (''losetup -d '' @ device p) True]"
    using e g b c by blast
  show "loop p \<noteq> 0"
    using run by simp
qed

theorem loop_detach_only_after_unmount_witness:
  "0 < loop part_image \<and>
   fst (unmount sys_busy part_image world0 True) = Inr 1 \<and>
   history (snd (snd (unmount sys_busy part_image world0 True))) =
     [LockEnter, Open ''/etc/mtab'', Open ''/proc/mounts'', Open ''/etc/mtab'', LockExit] \<and>
   Exec ''losetup -d /dev/loop0'' True
     \<in> set (history (snd (snd (unmount sys_busy part_loop0 world0 True)))) \<and>
   loop part_loop0 \<noteq> 0 \<and>
   (\<exists>v1 mnt v2 n v3 h c.
      MtabLock_enter sys_busy world0 = (Inr (), v1) \<and>
      get_mountpoint sys_busy part_loop0 v1 None = (Inr (Some mnt), v2) \<and> mnt \<noteq> [] \<and>
      unmount_locked sys_busy part_loop0 True v1 = (Inr (Fell_through n), part_loop0, v3) \<and>
      history v3 = h @ [Exec c True] \<and>
      (c = ''umount '' @ mnt \<or> c = ''umount -f '' @ mnt \<or> c = ''umount -l '' @ mnt) \<and>
      succeeded (respond sys_busy h c True) \<and>
      history (snd (snd (unmount sys_busy part_loop0 world0 True))) =
        history v3 @ [LockExit, Exec (''losetup -d '' @ device part_loop0) True])"
proof -
  let ?w1 = "\<lparr>history = [LockEnter, Open ''/etc/mtab''], lock_held = True,
              mtab_open = True\<rparr>"
  let ?w2 = "?w1\<lparr>history := history ?w1 @ [Open ''/proc/mounts'', Open ''/etc/mtab'']\<rparr>"
  let ?d = "Exec ''losetup -d /dev/loop0'' True"
  have l: "0 < loop part_image"
    by (simp add: part_image_def)
  have g: "get_mountpoint sys_busy part_image ?w1 None = (Inr None, ?w2)"
    by (simp add: busy_defs part_image_def unmount_defs is_space_str_def)
  have first: "fst (unmount sys_busy part_image world0 True) = Inr 1 \<and>
      history (snd (snd (unmount sys_busy part_image world0 True))) =
        history world0 @ [LockEnter, Open mtab_device, Open ''/proc/mounts'',
                          Open ''/etc/mtab'', LockExit] \<and>
      no_new_detach world0 (snd (snd (unmount sys_busy part_image world0 True)))"
    using loop_detach_only_after_unmount
      [where E = sys_busy and p = part_image and w = world0 and ?w1.0 = ?w1 and ?w2.0 = ?w2
         and force = True, THEN conjunct1] l busy_lock_entry g
    by blast
  have d: "?d \<in> set (history (snd (snd (unmount sys_busy part_loop0 world0 True))))"
    by (simp add: busy_loop_unmount)
  have "is_detach ?d \<and> ?d \<notin> set (history world0)"
    by (simp add: startswith_def world0_def)
  then have hyp: "\<exists>e \<in> set (history (snd (snd (unmount sys_busy part_loop0 world0 True)))).
      is_detach e \<and> e \<notin> set (history world0)"
    using d by blast
  have second: "loop part_loop0 \<noteq> 0 \<and>
   (\<exists>v1 mnt v2 n v3 h c.
      MtabLock_enter sys_busy world0 = (Inr (), v1) \<and>
      get_mountpoint sys_busy part_loop0 v1 None = (Inr (Some mnt), v2) \<and> mnt \<noteq> [] \<and>
      unmount_locked sys_busy part_loop0 True v1 = (Inr (Fell_through n), part_loop0, v3) \<and>
      history v3 = h @ [Exec c True] \<and>
      (c = ''umount '' @ mnt \<or> c = ''umount -f '' @ mnt \<or> c = ''umount -l '' @ mnt) \<and>
      succeeded (respond sys_busy h c True) \<and>
      history (snd (snd (unmount sys_busy part_loop0 world0 True))) =
        history v3 @ [LockExit, Exec (''losetup -d '' @ device part_loop0) True])"
    using loop_detach_only_after_unmount
      [where E = sys_busy and p = part_loop0 and w = world0 and force = True,
       THEN conjunct2] hyp
    by blast
  show ?thesis
    using l first d second by (simp add: world0_def mtab_device_def)
qed

text \<open>
  C9 as stated fails: while another process holds the lock, \<open>unmount\<close> of a loop-backed
  partition whose device is in no table does not return at all; it raises the lock error
  without entering the locked section.
\<close>

theorem absent_loop_device_with_busy_lock:
  "0 < loop part_image \<and>
   device_absent sys_lock_busy part_image busy_mounts \<and>
   unmount sys_lock_busy part_image world0 True =
     (Inl (PartitionError lock_reason (Some AlreadyLocked)), part_image,
      \<lparr>history = [LockEnter], lock_held = False, mtab_open = False\<rparr>)"
  by (simp add: sys_lock_busy_def busy_defs part_image_def unmount_def lock_defs
      device_absent_def names_device_def is_space_str_def)

subsection \<open>The \<open>mkfs\<close> command line\<close>

lemma contains_prefix: "contains sub (sub @ post)"
proof (cases "sub @ post")
  case Nil
  then show ?thesis by simp
next
  case (Cons c cs)
  have "startswith (sub @ post) sub" by (simp add: startswith_def)
  then show ?thesis using Cons by simp
qed

lemma contains_inside: "s = pre @ sub @ post \<Longrightarrow> contains sub s"
  by (induction pre arbitrary: s) (auto simp: contains_prefix)

lemma split_ws_token_inside:
  "tok \<in> set (split_ws isp s) \<Longrightarrow> \<exists>pre post. s = pre @ tok @ post"
proof (induction isp s rule: split_ws.induct)
  case (1 isp)
  then show ?case by simp
next
  case (2 isp c cs)
  show ?case
  proof (cases "isp c")
    case True
    then obtain pre post where "cs = pre @ tok @ post"
      using 2 by auto
    then have "c # cs = (c # pre) @ tok @ post" by simp
    then show ?thesis by blast
  next
    case False
    let ?t = "takeWhile (\<lambda>x. \<not> isp x) cs"
    let ?d = "dropWhile (\<lambda>x. \<not> isp x) cs"
    have cs: "cs = ?t @ ?d" by simp
    from 2 False have "tok = c # ?t \<or> tok \<in> set (split_ws isp ?d)" by auto
    then show ?thesis
    proof
      assume "tok = c # ?t"
      then have "c # cs = [] @ tok @ ?d" using cs by simp
      then show ?thesis by blast
    next
      assume "tok \<in> set (split_ws isp ?d)"
      then obtain pre post where d: "?d = pre @ tok @ post"
        using 2 False by auto
      have "c # cs = (c # ?t @ pre) @ tok @ post"
        using cs d by (metis append_Cons append_assoc)
      then show ?thesis by blast
    qed
  qed
qed

lemma token_contained: "tok \<in> set (split_ws isp s) \<Longrightarrow> contains tok s"
  using split_ws_token_inside contains_inside by blast

lemma mkfs_args_assembled:
  "mkfs_args p ft args =
     (if \<not> contains ''-t'' (mkfs_assembled p ft args)
      then strip (''-t '' @ ft @ '' '' @ mkfs_assembled p ft args)
      else strip (mkfs_assembled p ft args))"
  by (simp add: mkfs_args_def mkfs_assembled_def Let_def)

lemma mkfs_runs_mkfs_cmd:
  "list_mount_devices E w = (Inr devs, w1) \<Longrightarrow> device p \<notin> set devs \<Longrightarrow>
     history (snd (snd (mkfs E p w fa args))) =
       history w1 @ [Exec (''yes | '' @ mkfs_cmd p (mkfs_fstype p fa) args) False]"
  using process_system_output_world
    [of E w1 "''yes | '' @ mkfs_cmd p (mkfs_fstype p fa) args" False]
  by (cases "process_system_output E w1 (''yes | '' @ mkfs_cmd p (mkfs_fstype p fa) args) False")
     (auto simp: mkfs_def Let_def split: sum.splits)

text \<open>
  C7 (as amended). \<open>mkfs\<close> appends \<open>mkfs_flags\<close> to the caller's arguments, then a force
  option for xfs and btrfs, then one for loop-backed ext* or reiserfs targets. It puts
  \<open>-t <fstype>\<close> in front when the string put together so far has no occurrence of
  \<open>-t\<close>, and leaves the string as it is when one of its words is \<open>-t\<close>, whether that
  word came from the caller's arguments or from \<open>mkfs_flags\<close>. The command run is
  \<open>yes | mkfs <arguments> <device>\<close>.
\<close>

theorem mkfs_type_option_injected:
  "(\<not> contains ''-t'' (mkfs_assembled p ft args) \<longrightarrow>
      mkfs_cmd p ft args =
        ''mkfs '' @ strip (''-t '' @ ft @ '' '' @ mkfs_assembled p ft args) @ '' '' @ device p) \<and>
   (''-t'' \<in> set (split_ws is_space_str (mkfs_assembled p ft args)) \<longrightarrow>
      mkfs_cmd p ft args = ''mkfs '' @ strip (mkfs_assembled p ft args) @ '' '' @ device p) \<and>
   (list_mount_devices E w = (Inr devs, w1) \<and> device p \<notin> set devs \<longrightarrow>
      history (snd (snd (mkfs E p w fa args))) =
        history w1 @ [Exec (''yes | '' @ mkfs_cmd p (mkfs_fstype p fa) args) False])"
  by (auto simp: mkfs_cmd_def mkfs_args_assembled mkfs_runs_mkfs_cmd dest: token_contained)

lemmas string_defs = startswith_def strip_def rstrip_def lstrip_def is_space_str_def

theorem mkfs_type_option_injected_witness:
  "mkfs_cmd part_image ''xfs'' [] = ''mkfs -t xfs  -f /tmp/disk.img'' \<and>
   mkfs_cmd part_sdb1 ''ext2'' ''-t ext4 -b 4096'' = ''mkfs -t ext4 -b 4096 /dev/sdb1'' \<and>
   history (snd (snd (mkfs sys_quiet part_sdb1 world0 None ''-t ext4 -b 4096''))) =
     [Exec ''mount'' False, Exec ''swapon -s'' False,
      Exec ''yes | mkfs -t ext4 -b 4096 /dev/sdb1'' False]"
proof -
  let ?w1 = "world0\<lparr>history := history world0 @ [Exec ''mount'' False, Exec ''swapon -s'' False]\<rparr>"
  have a1: "mkfs_assembled part_image ''xfs'' [] = '' -f''"
    by (simp add: mkfs_assembled_def part_image_def startswith_def)
  have a2: "mkfs_assembled part_sdb1 ''ext2'' ''-t ext4 -b 4096'' = ''-t ext4 -b 4096''"
    by (simp add: mkfs_assembled_def part_sdb1_def startswith_def)
  have h1: "\<not> contains ''-t'' (mkfs_assembled part_image ''xfs'' [])"
    by (simp add: a1 startswith_def)
  have h2: "''-t'' \<in> set (split_ws is_space_str
                           (mkfs_assembled part_sdb1 ''ext2'' ''-t ext4 -b 4096''))"
    by (simp add: a2 is_space_str_def)
  have l: "list_mount_devices sys_quiet world0 = (Inr [], ?w1)"
    by (simp add: quiet_defs runner_defs table_defs)
  have h3: "device part_sdb1 \<notin> set []"
    by simp
  have f: "mkfs_fstype part_sdb1 None = ''ext2''"
    by (simp add: mkfs_fstype_def part_sdb1_def)
  have first: "mkfs_cmd part_image ''xfs'' [] =
      ''mkfs '' @ strip (''-t '' @ ''xfs'' @ '' '' @ mkfs_assembled part_image ''xfs'' []) @
      '' '' @ device part_image"
    using mkfs_type_option_injected
      [where p = part_image and ft = "''xfs''" and args = "[]", THEN conjunct1] h1
    by blast
  have second: "mkfs_cmd part_sdb1 ''ext2'' ''-t ext4 -b 4096'' =
      ''mkfs '' @ strip (mkfs_assembled part_sdb1 ''ext2'' ''-t ext4 -b 4096'') @
      '' '' @ device part_sdb1"
    using mkfs_type_option_injected
      [where p = part_sdb1 and ft = "''ext2''" and args = "''-t ext4 -b 4096''",
       THEN conjunct2, THEN conjunct1] h2
    by blast
  have third: "history (snd (snd (mkfs sys_quiet part_sdb1 world0 None ''-t ext4 -b 4096''))) =
      history ?w1 @
      [Exec (''yes | '' @ mkfs_cmd part_sdb1 (mkfs_fstype part_sdb1 None) ''-t ext4 -b 4096'')
         False]"
    using mkfs_type_option_injected
      [where p = part_sdb1 and E = sys_quiet and w = world0 and devs = "[]" and ?w1.0 = ?w1
         and fa = None and args = "''-t ext4 -b 4096''", THEN conjunct2, THEN conjunct2] l h3
    by blast
  have v1: "mkfs_cmd part_image ''xfs'' [] = ''mkfs -t xfs  -f /tmp/disk.img''"
    using first [unfolded a1] by (simp add: part_image_def string_defs)
  have v2: "mkfs_cmd part_sdb1 ''ext2'' ''-t ext4 -b 4096'' = ''mkfs -t ext4 -b 4096 /dev/sdb1''"
    using second [unfolded a2] by (simp add: part_sdb1_def string_defs)
  show ?thesis
    using v1 v2 third f by (simp add: world0_def)
qed

text \<open>
  C7 as stated fails: the test is for the two characters \<open>-t\<close> anywhere in the string
  put together, not for a type option among the caller's arguments. A label that
  contains \<open>-t\<close>, or a type option in \<open>mkfs_flags\<close>, keeps \<open>-t <fstype>\<close> from being
  added although the caller's arguments name no type.
\<close>

theorem mkfs_type_option_not_injected:
  "''-t'' \<notin> set (split_ws is_space_str ''-L my-test'') \<and>
   mkfs sys_quiet part_sdb1 world0 None ''-L my-test'' =
     (Inr (), part_sdb1\<lparr>fstype := Some ''ext2''\<rparr>,
      \<lparr>history = [Exec ''mount'' False, Exec ''swapon -s'' False,
                  Exec ''yes | mkfs -L my-test /dev/sdb1'' False],
       lock_held = False, mtab_open = False\<rparr>) \<and>
   mkfs_cmd (part_sdb1\<lparr>mkfs_flags := ''-t xfs''\<rparr>) ''ext2'' [] = ''mkfs -t xfs /dev/sdb1''"
  by (simp add: quiet_defs mkfs_defs runner_defs table_defs string_defs)

subsection \<open>Reading a mount description file\<close>

lemma scan_lines_well_formed:
  "\<forall>line \<in> set ls. 2 \<le> length (split_ws is_space_str line) \<Longrightarrow>
     \<exists>m. scan_lines E p ls = Inr m"
proof (induction ls)
  case Nil
  then show ?case by simp
next
  case (Cons line ls)
  then obtain p0 p1 ps where parts: "split_ws is_space_str line = p0 # p1 # ps"
    by (cases "split_ws is_space_str line"; cases "tl (split_ws is_space_str line)") auto
  then show ?case using Cons by auto
qed

lemma scan_lines_passed_over:
  "scan_lines E p pre = Inr None \<Longrightarrow> scan_lines E p (pre @ rest) = scan_lines E p rest"
  by (induction pre) (auto split: list.splits if_splits)

lemma scan_lines_short_line:
  "split_ws is_space_str line = [] \<or>
   (length (split_ws is_space_str line) = 1 \<and> names_device E p line) \<Longrightarrow>
     scan_lines E p (line # rest) = Inl IndexError"
  by (cases "split_ws is_space_str line") (auto simp: names_device_def)

lemma get_mountpoint_named_file:
  "f \<noteq> [] \<Longrightarrow> file_lines E (history w) f = Some ls \<Longrightarrow>
     fst (get_mountpoint E p w (Some f)) = scan_lines E p ls"
  by (simp add: get_mountpoint_def get_mountpoint_file_def Let_def)

lemma scan_lines_match:
  "split_ws is_space_str line = p0 # p1 # ps \<Longrightarrow> names_device E p line \<Longrightarrow>
   Some p1 = mountpoint p \<Longrightarrow> scan_lines E p (line # rest) = Inr (Some p1)"
  by (auto simp: names_device_def)

lemma scan_lines_other_device:
  "split_ws is_space_str line \<noteq> [] \<Longrightarrow> \<not> names_device E p line \<Longrightarrow>
     scan_lines E p (line # rest) = scan_lines E p rest"
  by (cases "split_ws is_space_str line") (auto simp: names_device_def)

text \<open>
  C10 (as amended). \<open>get_mountpoint(filename)\<close> returns, the mount point or \<open>None\<close>, on
  every file in which each line has at least two fields. It raises \<open>IndexError\<close> when
  the scan, having passed over the lines before without a match, reaches a blank line or
  a line whose single field names the device of the partition. When it reaches a matching
  entry first, it returns that mount point whatever lines follow; and a line that is not
  blank and names another device is passed over, however many fields it has.
\<close>

theorem get_mountpoint_index_error:
  "(f \<noteq> [] \<and> file_lines E (history w) f = Some ls \<and>
    (\<forall>line \<in> set ls. 2 \<le> length (split_ws is_space_str line)) \<longrightarrow>
      (\<exists>m. fst (get_mountpoint E p w (Some f)) = Inr m)) \<and>
   (f \<noteq> [] \<and> file_lines E (history w) f = Some (pre @ line # rest) \<and>
    scan_lines E p pre = Inr None \<and>
    (split_ws is_space_str line = [] \<or>
     (length (split_ws is_space_str line) = 1 \<and> names_device E p line)) \<longrightarrow>
      fst (get_mountpoint E p w (Some f)) = Inl IndexError) \<and>
   (f \<noteq> [] \<and> file_lines E (history w) f = Some (pre @ line # rest) \<and>
    scan_lines E p pre = Inr None \<and>
    split_ws is_space_str line = p0 # p1 # ps \<and> names_device E p line \<and>
    Some p1 = mountpoint p \<longrightarrow>
      fst (get_mountpoint E p w (Some f)) = Inr (Some p1)) \<and>
   (f \<noteq> [] \<and> file_lines E (history w) f = Some (pre @ line # rest) \<and>
    scan_lines E p pre = Inr None \<and>
    split_ws is_space_str line \<noteq> [] \<and> \<not> names_device E p line \<longrightarrow>
      fst (get_mountpoint E p w (Some f)) = scan_lines E p rest)"
proof (intro conjI impI)
  assume "f \<noteq> [] \<and> file_lines E (history w) f = Some ls \<and>
    (\<forall>line \<in> set ls. 2 \<le> length (split_ws is_space_str line))"
  then show "\<exists>m. fst (get_mountpoint E p w (Some f)) = Inr m"
    using get_mountpoint_named_file [of f E w ls p] scan_lines_well_formed [of ls E p] by simp
next
  assume a: "f \<noteq> [] \<and> file_lines E (history w) f = Some (pre @ line # rest) \<and>
    scan_lines E p pre = Inr None \<and>
    (split_ws is_space_str line = [] \<or>
     (length (split_ws is_space_str line) = 1 \<and> names_device E p line))"
  then have "scan_lines E p (pre @ line # rest) = Inl IndexError"
    using scan_lines_passed_over [of E p pre "line # rest"]
      scan_lines_short_line [of line E p rest] by simp
  then show "fst (get_mountpoint E p w (Some f)) = Inl IndexError"
    using a get_mountpoint_named_file [of f E w "pre @ line # rest" p] by simp
next
  assume a: "f \<noteq> [] \<and> file_lines E (history w) f = Some (pre @ line # rest) \<and>
    scan_lines E p pre = Inr None \<and>
    split_ws is_space_str line = p0 # p1 # ps \<and> names_device E p line \<and>
    Some p1 = mountpoint p"
  then have "scan_lines E p (pre @ line # rest) = Inr (Some p1)"
    using scan_lines_passed_over [of E p pre "line # rest"]
      scan_lines_match [of line p0 p1 ps E p rest] by simp
  then show "fst (get_mountpoint E p w (Some f)) = Inr (Some p1)"
    using a get_mountpoint_named_file [of f E w "pre @ line # rest" p] by simp
next
  assume a: "f \<noteq> [] \<and> file_lines E (history w) f = Some (pre @ line # rest) \<and>
    scan_lines E p pre = Inr None \<and>
    split_ws is_space_str line \<noteq> [] \<and> \<not> names_device E p line"
  then have "scan_lines E p (pre @ line # rest) = scan_lines E p rest"
    using scan_lines_passed_over [of E p pre "line # rest"]
      scan_lines_other_device [of line E p rest] by simp
  then show "fst (get_mountpoint E p w (Some f)) = scan_lines E p rest"
    using a get_mountpoint_named_file [of f E w "pre @ line # rest" p] by simp
qed

lemmas file_scan_defs = system_def finished_def world0_def part_sdb1_def
  get_mountpoint_def get_mountpoint_file_def is_space_str_def

theorem get_mountpoint_index_error_witness:
  "\<not> isl (fst (get_mountpoint sys_sdb1_mounted part_sdb1 world0 (Some ''/tmp/mounts''))) \<and>
   fst (get_mountpoint sys_blank_first part_sdb1 world0 (Some ''/tmp/mounts'')) =
     Inl IndexError \<and>
   fst (get_mountpoint sys_blank_after_match part_sdb1 world0 (Some ''/tmp/mounts'')) =
     Inr (Some ''/mnt'') \<and>
   fst (get_mountpoint sys_single_word part_sdb1 world0 (Some ''/tmp/mounts'')) = Inr None"
proof -
  let ?pre = "[''proc /proc proc rw 0 0'' @ [CHR 0x0A]]"
  let ?entry = "''/dev/sdb1 /mnt ext4 rw 0 0'' @ [CHR 0x0A]"
  let ?word = "''none'' @ [CHR 0x0A]"
  have n: "''/tmp/mounts'' \<noteq> []"
    by simp
  have f1: "file_lines sys_sdb1_mounted (history world0) ''/tmp/mounts'' = Some proc_mounts"
    by (simp add: sys_sdb1_mounted_def system_def)
  have wf: "\<forall>line \<in> set proc_mounts. 2 \<le> length (split_ws is_space_str line)"
    by (simp add: proc_mounts_def is_space_str_def)
  have f2: "file_lines sys_blank_first (history world0) ''/tmp/mounts'' =
      Some (?pre @ [CHR 0x0A] # [?entry])"
    by (simp add: sys_blank_first_def system_def)
  have pre: "scan_lines sys_blank_first part_sdb1 ?pre = Inr None"
    by (simp add: sys_blank_first_def system_def part_sdb1_def is_space_str_def)
  have blank: "split_ws is_space_str [CHR 0x0A] = [] \<or>
      (length (split_ws is_space_str [CHR 0x0A]) = 1 \<and>
       names_device sys_blank_first part_sdb1 [CHR 0x0A])"
    by (simp add: is_space_str_def)
  have f3: "file_lines sys_blank_after_match (history world0) ''/tmp/mounts'' =
      Some ([] @ ?entry # [[CHR 0x0A]])"
    by (simp add: sys_blank_after_match_def system_def)
  have e3: "split_ws is_space_str ?entry = ''/dev/sdb1'' # ''/mnt'' # [''ext4'', ''rw'', ''0'', ''0'']"
    by (simp add: is_space_str_def)
  have d3: "names_device sys_blank_after_match part_sdb1 ?entry"
    by (simp add: names_device_def part_sdb1_def is_space_str_def)
  have m3: "Some ''/mnt'' = mountpoint part_sdb1"
    by (simp add: part_sdb1_def)
  have f4: "file_lines sys_single_word (history world0) ''/tmp/mounts'' =
      Some ([] @ ?word # [])"
    by (simp add: sys_single_word_def system_def)
  have e4: "split_ws is_space_str ?word \<noteq> []"
    by (simp add: is_space_str_def)
  have d4: "\<not> names_device sys_single_word part_sdb1 ?word"
    by (simp add: names_device_def part_sdb1_def sys_single_word_def system_def
        is_space_str_def)
  have nil: "\<And>E. scan_lines E part_sdb1 [] = Inr None"
    by simp
  have first: "\<exists>m. fst (get_mountpoint sys_sdb1_mounted part_sdb1 world0 (Some ''/tmp/mounts''))
      = Inr m"
    using get_mountpoint_index_error
      [where f = "''/tmp/mounts''" and E = sys_sdb1_mounted and w = world0
         and ls = proc_mounts and p = part_sdb1, THEN conjunct1] n f1 wf
    by blast
  have second: "fst (get_mountpoint sys_blank_first part_sdb1 world0 (Some ''/tmp/mounts'')) =
      Inl IndexError"
    using get_mountpoint_index_error
      [where f = "''/tmp/mounts''" and E = sys_blank_first and w = world0 and pre = ?pre
         and line = "[CHR 0x0A]" and rest = "[?entry]" and p = part_sdb1,
       THEN conjunct2, THEN conjunct1]
      n f2 pre blank
    by blast
  have third: "fst (get_mountpoint sys_blank_after_match part_sdb1 world0
      (Some ''/tmp/mounts'')) = Inr (Some ''/mnt'')"
    using get_mountpoint_index_error
      [where f = "''/tmp/mounts''" and E = sys_blank_after_match and w = world0
         and pre = "[]" and line = ?entry and rest = "[[CHR 0x0A]]" and p = part_sdb1
         and ?p0.0 = "''/dev/sdb1''" and ?p1.0 = "''/mnt''"
         and ps = "[''ext4'', ''rw'', ''0'', ''0'']",
       THEN conjunct2, THEN conjunct2, THEN conjunct1]
      n f3 nil e3 d3 m3
    by blast
  have fourth: "fst (get_mountpoint sys_single_word part_sdb1 world0 (Some ''/tmp/mounts'')) =
      scan_lines sys_single_word part_sdb1 []"
    using get_mountpoint_index_error
      [where f = "''/tmp/mounts''" and E = sys_single_word and w = world0
         and pre = "[]" and line = ?word and rest = "[]" and p = part_sdb1,
       THEN conjunct2, THEN conjunct2, THEN conjunct2]
      n f4 nil e4 d4
    by blast
  show ?thesis
    using first second third fourth by auto
qed

text \<open>
  C10 as stated fails: a blank line after the matching entry is never read, and a line
  with a single field that names another device is passed over; on both files
  \<open>get_mountpoint\<close> returns.
\<close>

theorem get_mountpoint_returns_despite_short_lines:
  "get_mountpoint sys_blank_after_match part_sdb1 world0 (Some ''/tmp/mounts'') =
     (Inr (Some ''/mnt''),
      \<lparr>history = [Open ''/tmp/mounts''], lock_held = False, mtab_open = False\<rparr>) \<and>
   get_mountpoint sys_single_word part_sdb1 world0 (Some ''/tmp/mounts'') =
     (Inr None, \<lparr>history = [Open ''/tmp/mounts''], lock_held = False, mtab_open = False\<rparr>)"
  by (simp add: sys_blank_after_match_def sys_single_word_def file_scan_defs)


end
